theory Spec2Isabelle
  imports Complex_Main "HOL-Library.AList"
begin

section \<open>The workflow editor (workflow-editor.js)\<close>

text \<open>
  The class \<open>WorkflowEditor\<close> couples an in-memory graph (two JavaScript \<open>Map\<close>s, nodes and
  connections) to the document and to the backend. The model keeps the fields of the class
  in one record and the facts it reads from the document in a second one, and turns each
  method that assigns one of these fields into a function from states to states. A method
  that can stop with a \<open>TypeError\<close> (a property of \<open>null\<close> is read or written) returns
  how it completed together with the state it leaves behind, since what it has assigned
  before stays assigned. Left out are the node types, the zoom of the canvas and the methods
  that deal with nothing else (palette, search, tabs, zoom, the loading overlay), and the
  text that the rendering methods write into the document.
\<close>

subsection \<open>JavaScript values\<close>

text \<open>
  Values that come from outside the class (a parsed response body, a workflow id from the
  page, a form value). An object carries its own properties in insertion order; an array is
  the object of kind \<open>Array\<close> whose properties are its elements under their indices, so
  \<open>[]\<close> is \<open>JObj Array []\<close>. A number in such a value is a finite double, given by the
  rational it stands for.
\<close>

datatype objkind = Plain | Array

datatype jsval =
    JUndefined
  | JNull
  | JBool bool
  | JNum rat
  | JStr string
  | JObj objkind "(string \<times> jsval) list"

text \<open>The conversion to boolean of \<open>if (v)\<close>, \<open>!v\<close> and \<open>v ? a : b\<close>.\<close>

fun truthy :: "jsval \<Rightarrow> bool" where
  "truthy JUndefined = False"
| "truthy JNull = False"
| "truthy (JBool b) = b"
| "truthy (JNum r) = (r \<noteq> 0)"
| "truthy (JStr s) = (s \<noteq> [])"
| "truthy (JObj k ps) = True"

text \<open>
  The numbers the editor computes with (coordinates) are doubles: a finite one, given by
  the rational it stands for, an infinity or \<open>NaN\<close>. The sign of zero is not kept: no
  operation of the editor tells \<open>-0\<close> from \<open>0\<close>.
\<close>

datatype jsnum = NaN | NegInf | Fin rat | PosInf

text \<open>
  What the JavaScript runtime does and the editor only uses: how a number or an object is
  printed (\<open>Number::toString\<close>, \<open>toString\<close> of the object), and how the exact result of
  an arithmetic operation on finite doubles is rounded to a double (to the nearest one, or
  to an infinity when it is out of range). Both are parameters of the model.
\<close>

record runtime =
  print_value :: "jsval \<Rightarrow> string"
  to_double :: "rat \<Rightarrow> jsnum"

text \<open>The conversion to string of a template literal \<open>${v}\<close>.\<close>

fun js_string :: "runtime \<Rightarrow> jsval \<Rightarrow> string" where
  "js_string rt JUndefined = ''undefined''"
| "js_string rt JNull = ''null''"
| "js_string rt (JBool b) = (if b then ''true'' else ''false'')"
| "js_string rt (JStr s) = s"
| "js_string rt v = print_value rt v"


text \<open>
  Arithmetic on doubles, as IEEE 754 and the language define it: \<open>NaN\<close> is contagious,
  opposite infinities cancel to \<open>NaN\<close>, as does an infinity times zero, and a finite result
  is rounded. \<open>a - b\<close> is \<open>a + (-b)\<close>.
\<close>

fun js_neg :: "jsnum \<Rightarrow> jsnum" where
  "js_neg NaN = NaN"
| "js_neg NegInf = PosInf"
| "js_neg PosInf = NegInf"
| "js_neg (Fin x) = Fin (- x)"

fun js_add :: "runtime \<Rightarrow> jsnum \<Rightarrow> jsnum \<Rightarrow> jsnum" where
  "js_add rt NaN b = NaN"
| "js_add rt a NaN = NaN"
| "js_add rt PosInf NegInf = NaN"
| "js_add rt NegInf PosInf = NaN"
| "js_add rt PosInf b = PosInf"
| "js_add rt a PosInf = PosInf"
| "js_add rt NegInf b = NegInf"
| "js_add rt a NegInf = NegInf"
| "js_add rt (Fin x) (Fin y) = to_double rt (x + y)"

definition js_sub :: "runtime \<Rightarrow> jsnum \<Rightarrow> jsnum \<Rightarrow> jsnum" where
  "js_sub rt a b = js_add rt a (js_neg b)"







datatype completion = Returned | TypeError

text \<open>
  \<open>v.k\<close> for a property name \<open>k\<close> that no built-in prototype defines (the editor reads
  \<open>id\<close> and \<open>error\<close>): reading a property of \<open>null\<close> or \<open>undefined\<close> throws, a
  primitive has no such property.
\<close>

fun get_prop :: "jsval \<Rightarrow> string \<Rightarrow> completion \<times> jsval" where
  "get_prop JUndefined k = (TypeError, JUndefined)"
| "get_prop JNull k = (TypeError, JUndefined)"
| "get_prop (JObj kd ps) k = (Returned, (case map_of ps k of None \<Rightarrow> JUndefined | Some v \<Rightarrow> v))"
| "get_prop v k = (Returned, JUndefined)"

text \<open>
  \<open>w[k] = v\<close> in strict mode (a class body is strict code): on an object the property is
  replaced in place or appended; on \<open>null\<close>, \<open>undefined\<close> and on a primitive the
  assignment throws. An array is treated like any other object here: what assigning an
  index or \<open>length\<close> does to its length is not part of the model (the editor assigns
  \<open>name\<close>, \<open>description\<close> and \<open>status\<close>).
\<close>

fun set_prop :: "jsval \<Rightarrow> string \<Rightarrow> jsval \<Rightarrow> completion \<times> jsval" where
  "set_prop (JObj kd ps) k v = (Returned, JObj kd (AList.update k v ps))"
| "set_prop w k v = (TypeError, w)"

subsection \<open>Nodes, connections, the editor\<close>

text \<open>
  An id of a node or of a connection: \<open>generateId\<close> makes strings, \<open>loadWorkflow\<close> keeps
  what the page gives, which may be a number or any other primitive value. The maps
  compare ids as \<open>===\<close> does on primitive values; objects as ids are not considered. An
  element carries the id as the string of its \<open>data-node-id\<close> or \<open>data-connection-id\<close>
  attribute, and \<open>querySelector\<close> finds it by that string.
\<close>

datatype ident = IdUndefined | IdNull | IdBool bool | IdNum rat | IdStr string

fun id_val :: "ident \<Rightarrow> jsval" where
  "id_val IdUndefined = JUndefined"
| "id_val IdNull = JNull"
| "id_val (IdBool b) = JBool b"
| "id_val (IdNum r) = JNum r"
| "id_val (IdStr s) = JStr s"

definition id_string :: "runtime \<Rightarrow> ident \<Rightarrow> string" where
  "id_string rt i = js_string rt (id_val i)"

record point =
  pos_x :: jsnum
  pos_y :: jsnum

text \<open>
  A node as \<open>addNode\<close> builds it and as \<open>loadWorkflow\<close> takes it from the page: the
  serialised form that \<open>getWorkflowData\<close> sends has no \<open>status\<close>, and a node from
  elsewhere may lack \<open>config\<close>, hence the options.
\<close>

record node =
  node_id :: ident
  node_type :: string
  node_name :: jsval
  position :: point
  config :: "(string \<times> jsval) list option"
  status :: "string option"

record connection =
  conn_id :: ident
  source :: ident
  sourceHandle :: "string option"
  target :: ident
  targetHandle :: "string option"

record nodeType =
  nt_name :: string
  display_name :: string

text \<open>The body of a request, before \<open>JSON.stringify\<close>.\<close>

datatype body =
    WorkflowData string string "node list" "connection list"
  | TestInput
  | NoBody

record request =
  req_method :: string
  req_url :: string
  req_headers :: "(string \<times> string) list"
  req_credentials :: string
  req_body :: body

text \<open>A call suspended at \<open>await fetch(...)\<close>.\<close>

datatype pending = PendingSave | PendingTest | PendingDeploy

text \<open>
  The fields of the class (with \<open>options.workflowId\<close> and the fields of \<open>this.canvas\<close>
  that the drag handlers assign), followed by what the methods leave in the world: the node and
  connection elements that exist in the document (by their attribute), the notifications shown, the
  lines written to the console, the requests sent, the URLs given to
  \<open>history.replaceState\<close>, and the suspended calls. A JavaScript \<open>Map\<close> is an
  association list in insertion order; \<open>set\<close> is \<open>AList.update\<close>, \<open>delete\<close> is
  \<open>AList.delete\<close>, \<open>get\<close> is \<open>map_of\<close>.
\<close>

record editor =
  workflowId :: jsval
  workflow :: jsval
  nodes :: "(ident \<times> node) list"
  connections :: "(ident \<times> connection) list"
  selectedNode :: "ident option"
  selectedConnection :: "ident option"
  isDirty :: bool
  isLoading :: bool
  isDragging :: bool
  isConnecting :: bool
  connectionStart :: "(ident \<times> string option) option"
  dragStart :: "(jsnum \<times> jsnum \<times> ident) option"
  node_els :: "string set"
  conn_els :: "string set"
  notifications :: "(string \<times> string) list"
  console :: "string list"
  fetches :: "request list"
  history :: "string list"
  suspended :: "pending list"

text \<open>
  What the methods read from the document: whether the elements exist that \<open>setupDOM\<close>
  looks up (\<open>this.canvas.element\<close>, \<open>this.connectionsLayer\<close>, \<open>this.nodesLayer\<close>) and
  those the properties panel is made of, the values of the two workflow inputs, and the
  content of the CSRF meta tag (\<open>None\<close> where the element or the attribute is missing).
\<close>

record page =
  canvas_element :: bool
  connectionsLayer :: bool
  nodesLayer :: bool
  no_selection :: bool
  node_properties :: bool
  connection_properties :: bool
  workflow_name :: "string option"
  workflow_description :: "string option"
  csrf_meta :: "string option"

subsection \<open>Marking, notifying\<close>

text \<open>\<open>markDirty\<close>: the save button is looked up with a guard, so it cannot throw.\<close>

definition markDirty :: "editor \<Rightarrow> editor" where
  "markDirty s = s\<lparr>isDirty := True\<rparr>"

text \<open>
  \<open>showNotification(message, type)\<close> appends an element to the body; the timer that
  removes it after three seconds is not modelled.
\<close>

definition showNotification :: "string \<Rightarrow> string \<Rightarrow> editor \<Rightarrow> editor" where
  "showNotification message type s = s\<lparr>notifications := notifications s @ [(message, type)]\<rparr>"

text \<open>\<open>hideProperties\<close> writes the style of three elements it does not check for.\<close>

definition hideProperties :: "page \<Rightarrow> completion" where
  "hideProperties pg =
     (if no_selection pg \<and> node_properties pg \<and> connection_properties pg
      then Returned else TypeError)"

subsection \<open>The connection path\<close>


subsection \<open>Deleting\<close>

definition deleteConnection :: "runtime \<Rightarrow> ident \<Rightarrow> editor \<Rightarrow> editor" where
  "deleteConnection rt connectionId s =
     markDirty (s\<lparr>connections := AList.delete connectionId (connections s),
                  conn_els := conn_els s - {id_string rt connectionId}\<rparr>)"

text \<open>
  \<open>deleteNode\<close> first collects the ids of the connections at the node, then deletes each,
  then the node and its element; \<open>hideProperties\<close> comes after that and \<open>markDirty\<close> last.
\<close>

definition deleteNode :: "runtime \<Rightarrow> page \<Rightarrow> ident \<Rightarrow> editor \<Rightarrow> completion \<times> editor" where
  "deleteNode rt pg nodeId s =
     (let connectionsToRemove =
            map fst (filter (\<lambda>(i, c). source c = nodeId \<or> target c = nodeId) (connections s));
          s1 = fold (deleteConnection rt) connectionsToRemove s;
          s2 = s1\<lparr>nodes := AList.delete nodeId (nodes s1),
                  node_els := node_els s1 - {id_string rt nodeId},
                  selectedNode := None\<rparr>
      in case hideProperties pg of
           TypeError \<Rightarrow> (TypeError, s2)
         | Returned \<Rightarrow> (Returned, markDirty s2))"

subsection \<open>Rendering\<close>

text \<open>
  Of the rendering methods the model keeps what they do to the state: which elements exist
  afterwards, and whether the method runs into a missing element. \<open>renderNode\<close> reuses the
  node's element or creates one and appends it to \<open>this.nodesLayer\<close>.
\<close>

definition renderNode :: "runtime \<Rightarrow> page \<Rightarrow> node \<Rightarrow> editor \<Rightarrow> completion \<times> editor" where
  "renderNode rt pg nd s =
     (if id_string rt (node_id nd) \<in> node_els s then (Returned, s)
      else if nodesLayer pg
      then (Returned, s\<lparr>node_els := insert (id_string rt (node_id nd)) (node_els s)\<rparr>)
      else (TypeError, s))"

text \<open>
  \<open>getNodeHandlePosition\<close> returns the origin when the node has no element, and asks
  \<open>this.canvas.element\<close> for its rectangle otherwise. The position itself comes from the
  layout and is not part of the state.
\<close>

definition getNodeHandlePosition :: "runtime \<Rightarrow> page \<Rightarrow> node \<Rightarrow> editor \<Rightarrow> completion" where
  "getNodeHandlePosition rt pg nd s =
     (if id_string rt (node_id nd) \<in> node_els s \<and> \<not> canvas_element pg
      then TypeError else Returned)"

definition renderConnection ::
  "runtime \<Rightarrow> page \<Rightarrow> connection \<Rightarrow> editor \<Rightarrow> completion \<times> editor" where
  "renderConnection rt pg c s =
     (case (map_of (nodes s) (source c), map_of (nodes s) (target c)) of
        (Some sourceNode, Some targetNode) \<Rightarrow>
          if getNodeHandlePosition rt pg sourceNode s = TypeError then (TypeError, s)
          else if getNodeHandlePosition rt pg targetNode s = TypeError then (TypeError, s)
          else if \<not> connectionsLayer pg then (TypeError, s)
          else (Returned, s\<lparr>conn_els := insert (id_string rt (conn_id c)) (conn_els s)\<rparr>)
      | _ \<Rightarrow> (Returned, s))"

subsection \<open>Adding and editing\<close>

text \<open>
  \<open>generateId\<close> draws a random string; the string it returns is an argument of the
  methods that call it (\<open>nodeId\<close> of \<open>addNode\<close>, \<open>connectionId\<close> of \<open>addConnection\<close>).
\<close>

definition addNode ::
  "runtime \<Rightarrow> page \<Rightarrow> string \<Rightarrow> nodeType \<Rightarrow> point \<Rightarrow> editor \<Rightarrow> completion \<times> editor" where
  "addNode rt pg nodeId nt pos s =
     (let nd = \<lparr>node_id = IdStr nodeId, node_type = nt_name nt,
                node_name = JStr (display_name nt),
                position = pos, config = Some [], status = Some ''pending''\<rparr>;
          s1 = s\<lparr>nodes := AList.update (IdStr nodeId) nd (nodes s)\<rparr>
      in case renderNode rt pg nd s1 of
           (TypeError, s2) \<Rightarrow> (TypeError, s2)
         | (Returned, s2) \<Rightarrow> (Returned, markDirty s2))"

definition updateNodeProperty ::
  "runtime \<Rightarrow> page \<Rightarrow> ident \<Rightarrow> string \<Rightarrow> jsval \<Rightarrow> editor \<Rightarrow> completion \<times> editor" where
  "updateNodeProperty rt pg nodeId property v s =
     (case map_of (nodes s) nodeId of
        None \<Rightarrow> (Returned, s)
      | Some nd \<Rightarrow>
          let nd' = (if property = ''name'' then nd\<lparr>node_name := v\<rparr>
                     else nd\<lparr>config := Some (AList.update property v
                                   (case config nd of None \<Rightarrow> [] | Some c \<Rightarrow> c))\<rparr>);
              s1 = s\<lparr>nodes := AList.update nodeId nd' (nodes s)\<rparr>
          in case renderNode rt pg nd' s1 of
               (TypeError, s2) \<Rightarrow> (TypeError, s2)
             | (Returned, s2) \<Rightarrow> (Returned, markDirty s2))"

text \<open>The object that \<open>updateWorkflowProperty\<close> creates when there is no workflow yet.\<close>

definition untitled :: jsval where
  "untitled = JObj Plain
     [(''name'', JStr ''Untitled Workflow''),
      (''description'', JStr []),
      (''definition'', JObj Plain [(''nodes'', JObj Array []), (''connections'', JObj Array [])])]"

definition updateWorkflowProperty :: "string \<Rightarrow> jsval \<Rightarrow> editor \<Rightarrow> completion \<times> editor" where
  "updateWorkflowProperty property v s =
     (let s1 = (if \<not> truthy (workflow s) then s\<lparr>workflow := untitled\<rparr> else s)
      in case set_prop (workflow s1) property v of
           (TypeError, w) \<Rightarrow> (TypeError, s1)
         | (Returned, w) \<Rightarrow> (Returned, markDirty (s1\<lparr>workflow := w\<rparr>)))"

subsection \<open>Dragging a node\<close>

definition startNodeDrag :: "jsnum \<Rightarrow> jsnum \<Rightarrow> ident \<Rightarrow> editor \<Rightarrow> editor" where
  "startNodeDrag clientX clientY nodeId s =
     s\<lparr>isDragging := True, dragStart := Some (clientX, clientY, nodeId)\<rparr>"

definition onNodeDrag ::
  "runtime \<Rightarrow> page \<Rightarrow> jsnum \<Rightarrow> jsnum \<Rightarrow> editor \<Rightarrow> completion \<times> editor" where
  "onNodeDrag rt pg clientX clientY s =
     (if \<not> isDragging s then (Returned, s)
      else case dragStart s of
        None \<Rightarrow> (Returned, s)
      | Some (x0, y0, nodeId) \<Rightarrow>
          let dx = js_sub rt clientX x0; dy = js_sub rt clientY y0 in
          (case map_of (nodes s) nodeId of
             None \<Rightarrow> (Returned, s\<lparr>dragStart := Some (clientX, clientY, nodeId)\<rparr>)
           | Some nd \<Rightarrow>
               let nd' = nd\<lparr>position := \<lparr>pos_x = js_add rt (pos_x (position nd)) dx,
                                           pos_y = js_add rt (pos_y (position nd)) dy\<rparr>\<rparr>;
                   s1 = s\<lparr>nodes := AList.update nodeId nd' (nodes s)\<rparr>
               in case renderNode rt pg nd' s1 of
                    (TypeError, s2) \<Rightarrow> (TypeError, s2)
                  | (Returned, s2) \<Rightarrow>
                      (Returned, s2\<lparr>dragStart := Some (clientX, clientY, nodeId)\<rparr>)))"

definition onNodeDragEnd :: "editor \<Rightarrow> editor" where
  "onNodeDragEnd s = markDirty (s\<lparr>isDragging := False, dragStart := None\<rparr>)"

subsection \<open>Drawing a connection\<close>

text \<open>
  The handler on a handle calls \<open>startConnection\<close> with \<open>node.id\<close>, as the map holds
  it, the handle's \<open>data-handle\<close> and whether the handle has the class \<open>output\<close>.
\<close>

definition startConnection :: "ident \<Rightarrow> string option \<Rightarrow> bool \<Rightarrow> editor \<Rightarrow> editor" where
  "startConnection nodeId handle isOutput s =
     (if \<not> isOutput then s
      else s\<lparr>isConnecting := True, connectionStart := Some (nodeId, handle)\<rparr>)"

definition addConnection ::
  "runtime \<Rightarrow> page \<Rightarrow> string \<Rightarrow> ident \<Rightarrow> string option \<Rightarrow> ident \<Rightarrow> string option \<Rightarrow> editor
     \<Rightarrow> completion \<times> editor" where
  "addConnection rt pg connectionId sourceNodeId sHandle targetNodeId tHandle s =
     (let c = \<lparr>conn_id = IdStr connectionId, source = sourceNodeId, sourceHandle = sHandle,
               target = targetNodeId, targetHandle = tHandle\<rparr>;
          s1 = s\<lparr>connections := AList.update (IdStr connectionId) c (connections s)\<rparr>
      in case renderConnection rt pg c s1 of
           (TypeError, s2) \<Rightarrow> (TypeError, s2)
         | (Returned, s2) \<Rightarrow> (Returned, markDirty s2))"

text \<open>
  What \<open>e.target\<close> is at \<open>mouseup\<close>: its classes (\<open>None\<close> for a target that has no
  \<open>classList\<close>, as the document itself), the \<open>data-node-id\<close> of the closest enclosing
  \<open>.workflow-node\<close> (\<open>None\<close> when there is no such element, \<open>Some None\<close> when it has no
  such attribute), and its \<open>data-handle\<close>.
\<close>

record evtarget =
  classList :: "string list option"
  closest_workflow_node :: "string option option"
  dataset_handle :: "string option"

text \<open>
  \<open>getAttribute\<close> gives a string or \<open>null\<close>; the test against the id where the drag
  started is \<open>!==\<close>, which tells a string from a number.
\<close>

definition attribute_id :: "string option \<Rightarrow> ident" where
  "attribute_id a = (case a of None \<Rightarrow> IdNull | Some v \<Rightarrow> IdStr v)"

definition onConnectionEnd ::
  "runtime \<Rightarrow> page \<Rightarrow> string \<Rightarrow> evtarget option \<Rightarrow> editor \<Rightarrow> completion \<times> editor" where
  "onConnectionEnd rt pg connectionId tgt s =
     (if \<not> isConnecting s then (Returned, s)
      else case tgt of
        None \<Rightarrow> (Returned, s\<lparr>isConnecting := False, connectionStart := None\<rparr>)
      | Some t \<Rightarrow>
          (case classList t of
             None \<Rightarrow> (TypeError, s)
           | Some classes \<Rightarrow>
               if ''node-handle'' \<in> set classes \<and> ''input'' \<in> set classes then
                 (case closest_workflow_node t of
                    None \<Rightarrow> (TypeError, s)
                  | Some attribute \<Rightarrow>
                      let targetNodeId = attribute_id attribute in
                      (case connectionStart s of
                         None \<Rightarrow> (TypeError, s)
                       | Some (startNodeId, startHandle) \<Rightarrow>
                           if targetNodeId \<noteq> startNodeId then
                             (case addConnection rt pg connectionId startNodeId startHandle
                                     targetNodeId (dataset_handle t) s of
                                (TypeError, s1) \<Rightarrow> (TypeError, s1)
                              | (Returned, s1) \<Rightarrow>
                                  (Returned,
                                   s1\<lparr>isConnecting := False, connectionStart := None\<rparr>))
                           else (Returned,
                                 s\<lparr>isConnecting := False, connectionStart := None\<rparr>)))
               else (Returned, s\<lparr>isConnecting := False, connectionStart := None\<rparr>)))"

subsection \<open>Selecting\<close>

text \<open>
  \<open>selectNode\<close> assigns the selection and then fills the properties panel; only the
  assignments are kept.
\<close>

definition selectNode :: "ident \<Rightarrow> editor \<Rightarrow> editor" where
  "selectNode nodeId s = s\<lparr>selectedNode := Some nodeId, selectedConnection := None\<rparr>"

definition selectConnection :: "ident \<Rightarrow> editor \<Rightarrow> editor" where
  "selectConnection connectionId s =
     s\<lparr>selectedConnection := Some connectionId, selectedNode := None\<rparr>"

definition clearSelection :: "page \<Rightarrow> editor \<Rightarrow> completion \<times> editor" where
  "clearSelection pg s =
     (hideProperties pg, s\<lparr>selectedNode := None, selectedConnection := None\<rparr>)"

subsection \<open>Saving\<close>

text \<open>
  \<open>getWorkflowData\<close> takes name and description from the two inputs of the page
  (\<open>?.value || default\<close>) and serialises the maps in their order; a node is sent without
  its status and with \<open>config || {}\<close>.
\<close>

definition getWorkflowData :: "page \<Rightarrow> editor \<Rightarrow> body" where
  "getWorkflowData pg s =
     WorkflowData
       (case workflow_name pg of
          None \<Rightarrow> ''Untitled Workflow''
        | Some v \<Rightarrow> if v = [] then ''Untitled Workflow'' else v)
       (case workflow_description pg of None \<Rightarrow> [] | Some v \<Rightarrow> v)
       (map (\<lambda>(k, nd). nd\<lparr>config := Some (case config nd of None \<Rightarrow> [] | Some c \<Rightarrow> c),
                            status := None\<rparr>) (nodes s))
       (map snd (connections s))"

definition getCsrfToken :: "page \<Rightarrow> string" where
  "getCsrfToken pg = (case csrf_meta pg of None \<Rightarrow> [] | Some c \<Rightarrow> c)"

text \<open>
  An \<open>async\<close> method runs up to its \<open>await fetch(...)\<close>, where it is suspended, and
  continues when the response is there; other handlers run in between. The model has one
  function for each half. \<open>saveWorkflow\<close> is the first half: it ends with the request
  sent and the call suspended.
\<close>

definition saveWorkflow :: "runtime \<Rightarrow> page \<Rightarrow> editor \<Rightarrow> editor" where
  "saveWorkflow rt pg s =
     (if isLoading s then s
      else
        let s1 = s\<lparr>isLoading := True\<rparr>;
            workflowData = getWorkflowData pg s1;
            url = (if truthy (workflowId s1)
                   then ''/api/workflows/'' @ js_string rt (workflowId s1) @ ''/''
                   else ''/api/workflows/'');
            method = (if truthy (workflowId s1) then ''PUT'' else ''POST'');
            req = \<lparr>req_method = method, req_url = url,
                   req_headers = [(''Content-Type'', ''application/json''),
                                  (''X-CSRFToken'', getCsrfToken pg)],
                   req_credentials = ''same-origin'',
                   req_body = workflowData\<rparr>
        in s1\<lparr>fetches := fetches s1 @ [req], suspended := suspended s1 @ [PendingSave]\<rparr>)"

text \<open>
  What comes back: \<open>fetch\<close> rejects, or \<open>response.json()\<close> rejects because the body is
  not JSON, or there is a parsed body; the flag is \<open>response.ok\<close>.
\<close>

datatype response = NetworkError | NotJson bool | Json bool jsval

text \<open>The \<open>catch\<close> block of \<open>saveWorkflow\<close>.\<close>

definition save_catch :: "editor \<Rightarrow> editor" where
  "save_catch s =
     showNotification ''Failed to save workflow'' ''error''
       (s\<lparr>console := console s @ [''Save error:'']\<rparr>)"

text \<open>
  The second half of \<open>saveWorkflow\<close>: from the response to the end of the \<open>finally\<close>
  block. On an OK response \<open>this.workflow\<close> is assigned before \<open>result.id\<close> is read, and
  \<open>options.workflowId\<close> before it is tested.
\<close>

definition saveWorkflow_resumed :: "runtime \<Rightarrow> response \<Rightarrow> editor \<Rightarrow> editor" where
  "saveWorkflow_resumed rt resp s0 =
     (let s = s0\<lparr>suspended := remove1 PendingSave (suspended s0)\<rparr>;
          s' = (case resp of
                  NetworkError \<Rightarrow> save_catch s
                | NotJson ok \<Rightarrow> save_catch s
                | Json ok result \<Rightarrow>
                    if ok then
                      (let s1 = s\<lparr>workflow := result\<rparr> in
                       case get_prop result ''id'' of
                         (TypeError, i) \<Rightarrow> save_catch s1
                       | (Returned, i) \<Rightarrow>
                           let s2 = showNotification ''Workflow saved successfully'' ''success''
                                      (s1\<lparr>workflowId := i, isDirty := False\<rparr>)
                           in if \<not> truthy (workflowId s2)
                              then s2\<lparr>history := history s2
                                        @ [''/workflows/'' @ js_string rt i @ ''/edit/'']\<rparr>
                              else s2)
                    else save_catch s)
      in s'\<lparr>isLoading := False\<rparr>)"

subsection \<open>Testing and deploying\<close>

definition testWorkflow :: "runtime \<Rightarrow> page \<Rightarrow> editor \<Rightarrow> editor" where
  "testWorkflow rt pg s =
     (if \<not> truthy (workflowId s)
      then showNotification ''Please save the workflow first'' ''warning'' s
      else
        let req = \<lparr>req_method = ''POST'',
                   req_url = ''/api/workflows/'' @ js_string rt (workflowId s) @ ''/test/'',
                   req_headers = [(''Content-Type'', ''application/json''),
                                  (''X-CSRFToken'', getCsrfToken pg)],
                   req_credentials = ''same-origin'',
                   req_body = TestInput\<rparr>
        in s\<lparr>fetches := fetches s @ [req], suspended := suspended s @ [PendingTest]\<rparr>)"

text \<open>
  The second half of \<open>testWorkflow\<close>. \<open>showTestResults\<close> writes to the document only;
  \<open>shown\<close> says whether it returned.
\<close>

definition testWorkflow_resumed :: "bool \<Rightarrow> response \<Rightarrow> editor \<Rightarrow> editor" where
  "testWorkflow_resumed shown resp s0 =
     (let s = s0\<lparr>suspended := remove1 PendingTest (suspended s0)\<rparr>;
          failed = showNotification ''Workflow test failed'' ''error''
                     (s\<lparr>console := console s @ [''Test error:'']\<rparr>)
      in case resp of
           Json ok result \<Rightarrow>
             if ok \<and> shown then showNotification ''Workflow test completed'' ''success'' s
             else failed
         | _ \<Rightarrow> failed)"

text \<open>\<open>confirmed\<close> is the answer to the \<open>confirm\<close> dialogue.\<close>

definition deployWorkflow :: "runtime \<Rightarrow> page \<Rightarrow> bool \<Rightarrow> editor \<Rightarrow> editor" where
  "deployWorkflow rt pg confirmed s =
     (if \<not> truthy (workflowId s)
      then showNotification ''Please save the workflow first'' ''warning'' s
      else if confirmed then
        let req = \<lparr>req_method = ''POST'',
                   req_url = ''/api/workflows/'' @ js_string rt (workflowId s) @ ''/activate/'',
                   req_headers = [(''X-CSRFToken'', getCsrfToken pg)],
                   req_credentials = ''same-origin'',
                   req_body = NoBody\<rparr>
        in s\<lparr>fetches := fetches s @ [req], suspended := suspended s @ [PendingDeploy]\<rparr>
      else s)"

definition deployWorkflow_resumed :: "response \<Rightarrow> editor \<Rightarrow> editor" where
  "deployWorkflow_resumed resp s0 =
     (let s = s0\<lparr>suspended := remove1 PendingDeploy (suspended s0)\<rparr>;
          failed = showNotification ''Failed to deploy workflow'' ''error''
                     (s\<lparr>console := console s @ [''Deploy error:'']\<rparr>)
      in case resp of
           Json ok result \<Rightarrow>
             if ok then
               (case set_prop (workflow s) ''status'' (JStr ''active'') of
                  (TypeError, w) \<Rightarrow> failed
                | (Returned, w) \<Rightarrow>
                    showNotification ''Workflow deployed successfully'' ''success''
                      (s\<lparr>workflow := w\<rparr>))
             else failed
         | _ \<Rightarrow> failed)"

subsection \<open>Construction and loading\<close>

definition new_editor :: "jsval \<Rightarrow> editor" where
  "new_editor wid =
     \<lparr>workflowId = wid, workflow = JNull, nodes = [], connections = [],
      selectedNode = None, selectedConnection = None,
      isDirty = False, isLoading = False,
      isDragging = False, isConnecting = False, connectionStart = None, dragStart = None,
      node_els = {}, conn_els = {}, notifications = [], console = [], fetches = [],
      history = [], suspended = []\<rparr>"

fun load_nodes :: "runtime \<Rightarrow> page \<Rightarrow> node list \<Rightarrow> editor \<Rightarrow> completion \<times> editor" where
  "load_nodes rt pg [] s = (Returned, s)"
| "load_nodes rt pg (nodeData # rest) s =
     (case renderNode rt pg nodeData
             (s\<lparr>nodes := AList.update (node_id nodeData) nodeData (nodes s)\<rparr>) of
        (TypeError, s1) \<Rightarrow> (TypeError, s1)
      | (Returned, s1) \<Rightarrow> load_nodes rt pg rest s1)"

fun load_connections ::
  "runtime \<Rightarrow> page \<Rightarrow> connection list \<Rightarrow> editor \<Rightarrow> completion \<times> editor" where
  "load_connections rt pg [] s = (Returned, s)"
| "load_connections rt pg (connectionData # rest) s =
     (case renderConnection rt pg connectionData
             (s\<lparr>connections := AList.update (conn_id connectionData) connectionData
                                  (connections s)\<rparr>) of
        (TypeError, s1) \<Rightarrow> (TypeError, s1)
      | (Returned, s1) \<Rightarrow> load_connections rt pg rest s1)"

text \<open>
  \<open>options.workflowData\<close>: the two lists are optional, as the tests of \<open>loadWorkflow\<close>
  allow.
\<close>

definition loadWorkflow ::
  "runtime \<Rightarrow> page \<Rightarrow> (node list option \<times> connection list option) option \<Rightarrow> editor
     \<Rightarrow> completion \<times> editor" where
  "loadWorkflow rt pg workflowData s =
     (case workflowData of
        None \<Rightarrow> (Returned, s)
      | Some (None, cs) \<Rightarrow> (Returned, s)
      | Some (Some nds, cs) \<Rightarrow>
          (case load_nodes rt pg nds s of
             (TypeError, s1) \<Rightarrow> (TypeError, s1)
           | (Returned, s1) \<Rightarrow>
               (case cs of
                  None \<Rightarrow> (Returned, s1)
                | Some cds \<Rightarrow> load_connections rt pg cds s1)))"

subsection \<open>The editor at work\<close>

text \<open>
  What can happen to an editor: a method is called by a handler, or a response arrives for
  a suspended call. A handler that throws leaves the state it had reached.
\<close>

datatype event =
    LoadWorkflow "(node list option \<times> connection list option) option"
  | AddNode string nodeType point
  | SelectNode ident
  | SelectConnection ident
  | ClearSelection
  | UpdateNodeProperty ident string jsval
  | UpdateWorkflowProperty string jsval
  | StartNodeDrag jsnum jsnum ident
  | NodeDrag jsnum jsnum
  | NodeDragEnd
  | StartConnection ident "string option" bool
  | ConnectionEnd string "evtarget option"
  | AddConnection string ident "string option" ident "string option"
  | DeleteNode ident
  | DeleteConnection ident
  | SaveWorkflow
  | SaveResponse response
  | TestWorkflow
  | TestResponse bool response
  | DeployWorkflow bool
  | DeployResponse response

fun step :: "runtime \<Rightarrow> page \<Rightarrow> event \<Rightarrow> editor \<Rightarrow> editor" where
  "step rt pg (LoadWorkflow d) s = snd (loadWorkflow rt pg d s)"
| "step rt pg (AddNode i nt pos) s = snd (addNode rt pg i nt pos s)"
| "step rt pg (SelectNode i) s = selectNode i s"
| "step rt pg (SelectConnection i) s = selectConnection i s"
| "step rt pg ClearSelection s = snd (clearSelection pg s)"
| "step rt pg (UpdateNodeProperty i p v) s = snd (updateNodeProperty rt pg i p v s)"
| "step rt pg (UpdateWorkflowProperty p v) s = snd (updateWorkflowProperty p v s)"
| "step rt pg (StartNodeDrag x y i) s = startNodeDrag x y i s"
| "step rt pg (NodeDrag x y) s = snd (onNodeDrag rt pg x y s)"
| "step rt pg NodeDragEnd s = onNodeDragEnd s"
| "step rt pg (StartConnection i h out) s = startConnection i h out s"
| "step rt pg (ConnectionEnd i t) s = snd (onConnectionEnd rt pg i t s)"
| "step rt pg (AddConnection i a ah b bh) s = snd (addConnection rt pg i a ah b bh s)"
| "step rt pg (DeleteNode i) s = snd (deleteNode rt pg i s)"
| "step rt pg (DeleteConnection i) s = deleteConnection rt i s"
| "step rt pg SaveWorkflow s = saveWorkflow rt pg s"
| "step rt pg (SaveResponse r) s =
     (if PendingSave \<in> set (suspended s) then saveWorkflow_resumed rt r s else s)"
| "step rt pg TestWorkflow s = testWorkflow rt pg s"
| "step rt pg (TestResponse shown r) s =
     (if PendingTest \<in> set (suspended s) then testWorkflow_resumed shown r s else s)"
| "step rt pg (DeployWorkflow c) s = deployWorkflow rt pg c s"
| "step rt pg (DeployResponse r) s =
     (if PendingDeploy \<in> set (suspended s) then deployWorkflow_resumed r s else s)"

text \<open>The states an editor can be in: constructed, then any run of events on any page.\<close>

inductive reachable :: "runtime \<Rightarrow> editor \<Rightarrow> bool" for rt where
  constructed: "reachable rt (new_editor wid)"
| after: "reachable rt s \<Longrightarrow> reachable rt (step rt pg ev s)"

subsection \<open>Auxiliary notions\<close>

text \<open>The number of \<open>saveWorkflow\<close> calls that wait for their response.\<close>

definition saves_in_flight :: "editor \<Rightarrow> nat" where
  "saves_in_flight s = length (filter (\<lambda>p. p = PendingSave) (suspended s))"

text \<open>
  What every method other than \<open>saveWorkflow\<close> leaves alone: the busy flag, the saves in
  flight, the workflow id and the browser history; and none of them clears the dirty flag.
\<close>

definition keeps :: "editor \<Rightarrow> editor \<Rightarrow> bool" where
  "keeps s s' \<longleftrightarrow>
     isLoading s' = isLoading s \<and> saves_in_flight s' = saves_in_flight s \<and>
     (isDirty s \<longrightarrow> isDirty s') \<and> workflowId s' = workflowId s \<and> history s' = history s"

text \<open>
  A page that has every element the methods use without looking whether it is there: the
  canvas and its two layers, and the three parts of the properties panel.
\<close>

definition complete_page :: "page \<Rightarrow> bool" where
  "complete_page pg \<longleftrightarrow>
     canvas_element pg \<and> connectionsLayer pg \<and> nodesLayer pg \<and>
     no_selection pg \<and> node_properties pg \<and> connection_properties pg"

text \<open>The keys of the two maps are distinct, as the keys of a \<open>Map\<close> are.\<close>

definition keyed :: "editor \<Rightarrow> bool" where
  "keyed s \<longleftrightarrow> distinct (map fst (nodes s)) \<and> distinct (map fst (connections s))"

text \<open>
  Pages to run the methods on: one that has everything, one whose canvas is there without
  its layers, and one without the properties panel.
\<close>

definition editor_page :: page where
  "editor_page =
     \<lparr>canvas_element = True, connectionsLayer = True, nodesLayer = True,
      no_selection = True, node_properties = True, connection_properties = True,
      workflow_name = Some ''Orders'', workflow_description = Some [],
      csrf_meta = Some ''tok''\<rparr>"

definition canvas_without_layers :: page where
  "canvas_without_layers = editor_page\<lparr>connectionsLayer := False, nodesLayer := False\<rparr>"

definition page_without_panel :: page where
  "page_without_panel =
     editor_page\<lparr>no_selection := False, node_properties := False,
                   connection_properties := False\<rparr>"

text \<open>
  A runtime for the examples. It prints a natural number below 1000 in decimal and a plain
  object as JavaScript does, and it takes the exact result of an operation for the double:
  right where, as in the examples, that result is a double.
\<close>

definition digit :: "nat \<Rightarrow> char" where
  "digit d = ''0123456789'' ! d"

definition print_nat :: "nat \<Rightarrow> string" where
  "print_nat n =
     (if n < 10 then [digit n]
      else if n < 100 then [digit (n div 10), digit (n mod 10)]
      else [digit (n div 100), digit (n div 10 mod 10), digit (n mod 10)])"

fun plain_print :: "jsval \<Rightarrow> string" where
  "plain_print (JNum r) =
     (if 0 \<le> r \<and> r < 1000 \<and> of_int \<lfloor>r\<rfloor> = r then print_nat (nat \<lfloor>r\<rfloor>) else [])"
| "plain_print (JObj Plain ps) = ''[object Object]''"
| "plain_print v = []"

definition plain_rt :: runtime where
  "plain_rt = \<lparr>print_value = plain_print, to_double = Fin\<rparr>"

text \<open>A graph of three nodes in a cycle, freshly loaded.\<close>

definition sample_node :: "ident \<Rightarrow> node" where
  "sample_node i =
     \<lparr>node_id = i, node_type = ''log'', node_name = JStr ''Log Message'',
      position = \<lparr>pos_x = Fin 0, pos_y = Fin 0\<rparr>, config = Some [], status = None\<rparr>"

definition sample_connection :: "string \<Rightarrow> string \<Rightarrow> string \<Rightarrow> connection" where
  "sample_connection i a b =
     \<lparr>conn_id = IdStr i, source = IdStr a, sourceHandle = Some ''output'',
      target = IdStr b, targetHandle = Some ''input''\<rparr>"

definition three_nodes :: editor where
  "three_nodes =
     (new_editor JNull)
       \<lparr>nodes := [(IdStr ''node_a'', sample_node (IdStr ''node_a'')),
                  (IdStr ''node_b'', sample_node (IdStr ''node_b'')),
                  (IdStr ''node_c'', sample_node (IdStr ''node_c''))],
        connections := [(IdStr ''node_ab'', sample_connection ''node_ab'' ''node_a'' ''node_b''),
                        (IdStr ''node_bc'', sample_connection ''node_bc'' ''node_b'' ''node_c''),
                        (IdStr ''node_ca'', sample_connection ''node_ca'' ''node_c'' ''node_a'')],
        node_els := {''node_a'', ''node_b'', ''node_c''},
        conn_els := {''node_ab'', ''node_bc'', ''node_ca''}\<rparr>"

text \<open>
  An editor whose page gave it one node with the number 2 for its id, and the input handle
  of that node's element, whose \<open>data-node-id\<close> is the string \<open>2\<close>.
\<close>

definition numbered :: editor where
  "numbered =
     snd (loadWorkflow plain_rt editor_page (Some (Some [sample_node (IdNum 2)], Some []))
            (new_editor (JNum 5)))"

definition input_handle_of_2 :: evtarget where
  "input_handle_of_2 =
     \<lparr>classList = Some [''node-handle'', ''input''],
      closest_workflow_node = Some (Some ''2''), dataset_handle = Some ''input''\<rparr>"

section \<open>Properties\<close>

subsection \<open>What the methods leave alone\<close>

lemma keeps_refl: "keeps s s"
  by (simp add: keeps_def)

lemma keeps_trans: "keeps s s1 \<Longrightarrow> keeps s1 s2 \<Longrightarrow> keeps s s2"
  by (simp add: keeps_def)

lemma keeps_renderNode: "keeps s (snd (renderNode rt pg nd s))"
  by (simp add: keeps_def renderNode_def saves_in_flight_def)

lemma keeps_renderConnection: "keeps s (snd (renderConnection rt pg c s))"
  by (simp add: keeps_def renderConnection_def saves_in_flight_def split: option.split)

lemma keeps_addNode: "keeps s (snd (addNode rt pg i nt pos s))"
  by (simp add: keeps_def addNode_def renderNode_def markDirty_def Let_def saves_in_flight_def)

lemma keeps_addConnection: "keeps s (snd (addConnection rt pg i a ah b bh s))"
  by (simp add: keeps_def addConnection_def renderConnection_def markDirty_def Let_def
      saves_in_flight_def split: option.split)

lemma keeps_updateNodeProperty: "keeps s (snd (updateNodeProperty rt pg i p v s))"
  by (simp add: keeps_def updateNodeProperty_def renderNode_def markDirty_def Let_def
      saves_in_flight_def split: option.split)

lemma keeps_updateWorkflowProperty: "keeps s (snd (updateWorkflowProperty p v s))"
  by (simp add: keeps_def updateWorkflowProperty_def markDirty_def Let_def
      saves_in_flight_def split: prod.split completion.split)

lemma keeps_onNodeDrag: "keeps s (snd (onNodeDrag rt pg x y s))"
  by (simp add: keeps_def onNodeDrag_def renderNode_def Let_def
      saves_in_flight_def split: option.split prod.split)

lemma keeps_onConnectionEnd: "keeps s (snd (onConnectionEnd rt pg i t s))"
proof -
  have a: "keeps s (s'\<lparr>isConnecting := False, connectionStart := None\<rparr>)" if "keeps s s'" for s'
    using that by (simp add: keeps_def saves_in_flight_def)
  have b: "keeps s s'" if "addConnection rt pg i x xh y yh s = (r, s')" for x xh y yh r s'
    using keeps_addConnection [of s rt pg i x xh y yh] that by simp
  show ?thesis
    by (auto simp: onConnectionEnd_def Let_def keeps_refl a dest: b
        split: option.split prod.split completion.split)
qed

lemma keeps_deleteConnection: "keeps s (deleteConnection rt i s)"
  by (simp add: keeps_def deleteConnection_def markDirty_def saves_in_flight_def)

lemma keeps_fold_deleteConnection: "keeps s (fold (deleteConnection rt) ks s)"
proof (induction ks arbitrary: s)
  case Nil
  show ?case by (simp add: keeps_refl)
next
  case (Cons k ks)
  show ?case
    using keeps_trans [OF keeps_deleteConnection Cons.IH] by simp
qed

lemma keeps_deleteNode: "keeps s (snd (deleteNode rt pg n s))"
proof -
  let ?ks = "map fst (filter (\<lambda>(i, c). source c = n \<or> target c = n) (connections s))"
  have "keeps (fold (deleteConnection rt) ?ks s) (snd (deleteNode rt pg n s))"
    by (simp add: keeps_def deleteNode_def Let_def markDirty_def saves_in_flight_def
        split: completion.split)
  with keeps_fold_deleteConnection [of s rt ?ks] show ?thesis
    by (rule keeps_trans)
qed

lemma keeps_load_nodes: "keeps s (snd (load_nodes rt pg nds s))"
proof (induction nds arbitrary: s)
  case Nil
  show ?case by (simp add: keeps_refl)
next
  case (Cons nd nds)
  let ?s0 = "s\<lparr>nodes := AList.update (node_id nd) nd (nodes s)\<rparr>"
  have 0: "keeps s ?s0" by (simp add: keeps_def saves_in_flight_def)
  have 1: "keeps s (snd (renderNode rt pg nd ?s0))"
    using keeps_trans [OF 0 keeps_renderNode] .
  show ?case
  proof (cases "renderNode rt pg nd ?s0")
    case (Pair c s1)
    with 1 have s1: "keeps s s1" by simp
    show ?thesis
    proof (cases c)
      case Returned
      with Pair keeps_trans [OF s1 Cons.IH [of s1]] show ?thesis by simp
    next
      case TypeError
      with Pair s1 show ?thesis by simp
    qed
  qed
qed

lemma keeps_load_connections: "keeps s (snd (load_connections rt pg cs s))"
proof (induction cs arbitrary: s)
  case Nil
  show ?case by (simp add: keeps_refl)
next
  case (Cons c cs)
  let ?s0 = "s\<lparr>connections := AList.update (conn_id c) c (connections s)\<rparr>"
  have 0: "keeps s ?s0" by (simp add: keeps_def saves_in_flight_def)
  have 1: "keeps s (snd (renderConnection rt pg c ?s0))"
    using keeps_trans [OF 0 keeps_renderConnection] .
  show ?case
  proof (cases "renderConnection rt pg c ?s0")
    case (Pair r s1)
    with 1 have s1: "keeps s s1" by simp
    show ?thesis
    proof (cases r)
      case Returned
      with Pair keeps_trans [OF s1 Cons.IH [of s1]] show ?thesis by simp
    next
      case TypeError
      with Pair s1 show ?thesis by simp
    qed
  qed
qed

lemma keeps_loadWorkflow: "keeps s (snd (loadWorkflow rt pg d s))"
proof (cases d)
  case None
  then show ?thesis by (simp add: loadWorkflow_def keeps_refl)
next
  case (Some p)
  obtain ndo cso where p: "p = (ndo, cso)" by (cases p)
  show ?thesis
  proof (cases ndo)
    case None
    with Some p show ?thesis by (simp add: loadWorkflow_def keeps_refl)
  next
    case nds: (Some nds)
    show ?thesis
    proof (cases "load_nodes rt pg nds s")
      case (Pair r s1)
      with keeps_load_nodes [of s rt pg nds] have s1: "keeps s s1" by simp
      show ?thesis
        using Some p nds Pair s1 keeps_trans [OF s1 keeps_load_connections [of s1 rt pg]]
        by (cases r; cases cso) (simp_all add: loadWorkflow_def)
    qed
  qed
qed

lemma keeps_testWorkflow: "keeps s (testWorkflow rt pg s)"
  by (simp add: keeps_def testWorkflow_def showNotification_def Let_def saves_in_flight_def)

lemma keeps_deployWorkflow: "keeps s (deployWorkflow rt pg c s)"
  by (simp add: keeps_def deployWorkflow_def showNotification_def Let_def saves_in_flight_def)

lemma filter_remove1_other:
  "x \<noteq> y \<Longrightarrow> filter (\<lambda>p. p = y) (remove1 x xs) = filter (\<lambda>p. p = y) xs"
  by (induction xs) auto

lemma keeps_testWorkflow_resumed: "keeps s (testWorkflow_resumed shown r s)"
  by (simp add: keeps_def testWorkflow_resumed_def showNotification_def Let_def
      saves_in_flight_def filter_remove1_other split: response.split)

lemma keeps_deployWorkflow_resumed: "keeps s (deployWorkflow_resumed r s)"
  by (simp add: keeps_def deployWorkflow_resumed_def showNotification_def Let_def
      saves_in_flight_def filter_remove1_other split: response.split prod.split completion.split)

lemma keeps_step:
  assumes "ev \<noteq> SaveWorkflow" and "\<And>r. ev \<noteq> SaveResponse r"
  shows "keeps s (step rt pg ev s)"
proof (cases ev)
  case (LoadWorkflow d) then show ?thesis by (simp add: keeps_loadWorkflow)
next
  case (AddNode i nt pos) then show ?thesis by (simp add: keeps_addNode)
next
  case (SelectNode i) then show ?thesis by (simp add: keeps_def selectNode_def saves_in_flight_def)
next
  case (SelectConnection i) then show ?thesis by (simp add: keeps_def selectConnection_def saves_in_flight_def)
next
  case ClearSelection then show ?thesis by (simp add: keeps_def clearSelection_def saves_in_flight_def)
next
  case (UpdateNodeProperty i p v) then show ?thesis by (simp add: keeps_updateNodeProperty)
next
  case (UpdateWorkflowProperty p v) then show ?thesis by (simp add: keeps_updateWorkflowProperty)
next
  case (StartNodeDrag x y i) then show ?thesis by (simp add: keeps_def startNodeDrag_def saves_in_flight_def)
next
  case (NodeDrag x y) then show ?thesis by (simp add: keeps_onNodeDrag)
next
  case NodeDragEnd then show ?thesis by (simp add: keeps_def onNodeDragEnd_def markDirty_def saves_in_flight_def)
next
  case (StartConnection i h out) then show ?thesis by (simp add: keeps_def startConnection_def saves_in_flight_def)
next
  case (ConnectionEnd i t) then show ?thesis by (simp add: keeps_onConnectionEnd)
next
  case (AddConnection i a ah b bh) then show ?thesis by (simp add: keeps_addConnection)
next
  case (DeleteNode i) then show ?thesis by (simp add: keeps_deleteNode)
next
  case (DeleteConnection i) then show ?thesis by (simp add: keeps_deleteConnection)
next
  case SaveWorkflow with assms show ?thesis by simp
next
  case (SaveResponse r) with assms(2) show ?thesis by blast
next
  case TestWorkflow then show ?thesis by (simp add: keeps_testWorkflow)
next
  case (TestResponse shown r) then show ?thesis by (simp add: keeps_testWorkflow_resumed keeps_refl)
next
  case (DeployWorkflow c) then show ?thesis by (simp add: keeps_deployWorkflow)
next
  case (DeployResponse r) then show ?thesis by (simp add: keeps_deployWorkflow_resumed keeps_refl)
qed

subsection \<open>The maps keep their keys distinct\<close>

lemma keyed_renderNode: "keyed s \<Longrightarrow> keyed (snd (renderNode rt pg nd s))"
  by (simp add: keyed_def renderNode_def)

lemma keyed_renderConnection: "keyed s \<Longrightarrow> keyed (snd (renderConnection rt pg c s))"
  by (simp add: keyed_def renderConnection_def split: option.split)

lemma keyed_addNode: "keyed s \<Longrightarrow> keyed (snd (addNode rt pg i nt pos s))"
  by (simp add: keyed_def addNode_def renderNode_def markDirty_def Let_def distinct_update)

lemma keyed_addConnection: "keyed s \<Longrightarrow> keyed (snd (addConnection rt pg i a ah b bh s))"
  by (simp add: keyed_def addConnection_def renderConnection_def markDirty_def Let_def
      distinct_update split: option.split)

lemma keyed_updateNodeProperty: "keyed s \<Longrightarrow> keyed (snd (updateNodeProperty rt pg i p v s))"
  by (simp add: keyed_def updateNodeProperty_def renderNode_def markDirty_def Let_def
      distinct_update split: option.split)

lemma keyed_updateWorkflowProperty: "keyed s \<Longrightarrow> keyed (snd (updateWorkflowProperty p v s))"
  by (simp add: keyed_def updateWorkflowProperty_def markDirty_def Let_def
      split: prod.split completion.split)

lemma keyed_onNodeDrag: "keyed s \<Longrightarrow> keyed (snd (onNodeDrag rt pg x y s))"
  by (simp add: keyed_def onNodeDrag_def renderNode_def Let_def distinct_update
      split: option.split prod.split)

lemma keyed_onConnectionEnd:
  assumes "keyed s"
  shows "keyed (snd (onConnectionEnd rt pg i t s))"
proof -
  have a: "keyed (s'\<lparr>isConnecting := False, connectionStart := None\<rparr>)" if "keyed s'" for s'
    using that by (simp add: keyed_def)
  have b: "keyed s'" if "addConnection rt pg i x xh y yh s = (r, s')" for x xh y yh r s'
    using keyed_addConnection [OF assms, of rt pg i x xh y yh] that by simp
  show ?thesis
    using assms
    by (auto simp: onConnectionEnd_def Let_def a dest: b
        split: option.split prod.split completion.split)
qed

lemma keyed_deleteConnection: "keyed s \<Longrightarrow> keyed (deleteConnection rt i s)"
  by (simp add: keyed_def deleteConnection_def markDirty_def distinct_delete)

lemma keyed_fold_deleteConnection: "keyed s \<Longrightarrow> keyed (fold (deleteConnection rt) ks s)"
  by (induction ks arbitrary: s) (simp_all add: keyed_deleteConnection)

lemma keyed_deleteNode:
  assumes "keyed s"
  shows "keyed (snd (deleteNode rt pg n s))"
proof -
  let ?ks = "map fst (filter (\<lambda>(i, c). source c = n \<or> target c = n) (connections s))"
  from assms have "keyed (fold (deleteConnection rt) ?ks s)"
    by (rule keyed_fold_deleteConnection)
  then show ?thesis
    by (simp add: keyed_def deleteNode_def Let_def markDirty_def distinct_delete
        split: completion.split)
qed

lemma keyed_load_nodes: "keyed s \<Longrightarrow> keyed (snd (load_nodes rt pg nds s))"
proof (induction nds arbitrary: s)
  case Nil
  then show ?case by simp
next
  case (Cons nd nds)
  let ?s0 = "s\<lparr>nodes := AList.update (node_id nd) nd (nodes s)\<rparr>"
  from Cons.prems have "keyed ?s0" by (simp add: keyed_def distinct_update)
  then have 1: "keyed (snd (renderNode rt pg nd ?s0))" by (rule keyed_renderNode)
  show ?case
  proof (cases "renderNode rt pg nd ?s0")
    case (Pair r s1)
    with 1 have s1: "keyed s1" by simp
    from Pair s1 Cons.IH [OF s1] show ?thesis by (cases r) simp_all
  qed
qed

lemma keyed_load_connections: "keyed s \<Longrightarrow> keyed (snd (load_connections rt pg cs s))"
proof (induction cs arbitrary: s)
  case Nil
  then show ?case by simp
next
  case (Cons c cs)
  let ?s0 = "s\<lparr>connections := AList.update (conn_id c) c (connections s)\<rparr>"
  from Cons.prems have "keyed ?s0" by (simp add: keyed_def distinct_update)
  then have 1: "keyed (snd (renderConnection rt pg c ?s0))" by (rule keyed_renderConnection)
  show ?case
  proof (cases "renderConnection rt pg c ?s0")
    case (Pair r s1)
    with 1 have s1: "keyed s1" by simp
    from Pair s1 Cons.IH [OF s1] show ?thesis by (cases r) simp_all
  qed
qed

lemma keyed_loadWorkflow:
  assumes "keyed s"
  shows "keyed (snd (loadWorkflow rt pg d s))"
proof (cases d)
  case None
  with assms show ?thesis by (simp add: loadWorkflow_def)
next
  case (Some p)
  obtain ndo cso where p: "p = (ndo, cso)" by (cases p)
  show ?thesis
  proof (cases ndo)
    case None
    with Some p assms show ?thesis by (simp add: loadWorkflow_def)
  next
    case nds: (Some nds)
    show ?thesis
    proof (cases "load_nodes rt pg nds s")
      case (Pair r s1)
      with keyed_load_nodes [OF assms, of rt pg nds] have s1: "keyed s1" by simp
      show ?thesis
        using Some p nds Pair s1 keyed_load_connections [OF s1, of rt pg]
        by (cases r; cases cso) (simp_all add: loadWorkflow_def)
    qed
  qed
qed

lemma keyed_step:
  assumes "keyed s"
  shows "keyed (step rt pg ev s)"
proof (cases ev)
  case (LoadWorkflow d) with assms show ?thesis by (simp add: keyed_loadWorkflow)
next
  case (AddNode i nt pos) with assms show ?thesis by (simp add: keyed_addNode)
next
  case (SelectNode i) with assms show ?thesis by (simp add: keyed_def selectNode_def)
next
  case (SelectConnection i) with assms show ?thesis by (simp add: keyed_def selectConnection_def)
next
  case ClearSelection with assms show ?thesis by (simp add: keyed_def clearSelection_def)
next
  case (UpdateNodeProperty i p v) with assms show ?thesis by (simp add: keyed_updateNodeProperty)
next
  case (UpdateWorkflowProperty p v) with assms show ?thesis by (simp add: keyed_updateWorkflowProperty)
next
  case (StartNodeDrag x y i) with assms show ?thesis by (simp add: keyed_def startNodeDrag_def)
next
  case (NodeDrag x y) with assms show ?thesis by (simp add: keyed_onNodeDrag)
next
  case NodeDragEnd with assms show ?thesis by (simp add: keyed_def onNodeDragEnd_def markDirty_def)
next
  case (StartConnection i h out) with assms show ?thesis by (simp add: keyed_def startConnection_def)
next
  case (ConnectionEnd i t) with assms show ?thesis by (simp add: keyed_onConnectionEnd)
next
  case (AddConnection i a ah b bh) with assms show ?thesis by (simp add: keyed_addConnection)
next
  case (DeleteNode i) with assms show ?thesis by (simp add: keyed_deleteNode)
next
  case (DeleteConnection i) with assms show ?thesis by (simp add: keyed_deleteConnection)
next
  case SaveWorkflow with assms show ?thesis by (simp add: keyed_def saveWorkflow_def Let_def)
next
  case (SaveResponse r) with assms show ?thesis
    by (simp add: keyed_def saveWorkflow_resumed_def save_catch_def showNotification_def Let_def
        split: response.split prod.split completion.split)
next
  case TestWorkflow with assms show ?thesis
    by (simp add: keyed_def testWorkflow_def showNotification_def Let_def)
next
  case (TestResponse shown r) with assms show ?thesis
    by (simp add: keyed_def testWorkflow_resumed_def showNotification_def Let_def
        split: response.split)
next
  case (DeployWorkflow c) with assms show ?thesis
    by (simp add: keyed_def deployWorkflow_def showNotification_def Let_def)
next
  case (DeployResponse r) with assms show ?thesis
    by (simp add: keyed_def deployWorkflow_resumed_def showNotification_def Let_def
        split: response.split prod.split completion.split)
qed

lemma reachable_keyed: "reachable rt s \<Longrightarrow> keyed s"
  by (induction rule: reachable.induct) (simp_all add: keyed_def new_editor_def keyed_step [unfolded keyed_def])

subsection \<open>Deleting a node\<close>

lemma connections_fold_deleteConnection:
  "connections (fold (deleteConnection rt) ks s) = filter (\<lambda>(k, c). k \<notin> set ks) (connections s)"
proof (induction ks arbitrary: s)
  case Nil
  show ?case by simp
next
  case (Cons k ks)
  have "connections (deleteConnection rt k s) = filter (\<lambda>(k', c). k' \<noteq> k) (connections s)"
    by (simp add: deleteConnection_def markDirty_def AList.delete_eq case_prod_unfold eq_commute)
  then show ?case
    using Cons.IH [of "deleteConnection rt k s"]
    by (auto simp: case_prod_unfold intro: filter_cong)
qed

lemma nodes_fold_deleteConnection: "nodes (fold (deleteConnection rt) ks s) = nodes s"
  by (induction ks arbitrary: s) (simp_all add: deleteConnection_def markDirty_def)

lemma incident_keys:
  assumes "distinct (map fst cs)" and "(k, c) \<in> set cs"
  shows "k \<in> set (map fst (filter (\<lambda>(i, c). P c) cs)) \<longleftrightarrow> P c"
proof
  assume "k \<in> set (map fst (filter (\<lambda>(i, c). P c) cs))"
  then obtain c' where c': "(k, c') \<in> set cs" "P c'" by auto
  from assms c'(1) have "c' = c" by (meson eq_key_imp_eq_value)
  with c'(2) show "P c" by simp
next
  assume "P c"
  with assms(2) show "k \<in> set (map fst (filter (\<lambda>(i, c). P c) cs))" by force
qed

lemma deleteNode_connections:
  assumes "distinct (map fst (connections s))"
  shows "connections (snd (deleteNode rt pg n s)) =
         filter (\<lambda>(k, c). source c \<noteq> n \<and> target c \<noteq> n) (connections s)"
proof -
  let ?ks = "map fst (filter (\<lambda>(i, c). source c = n \<or> target c = n) (connections s))"
  have "connections (snd (deleteNode rt pg n s)) = connections (fold (deleteConnection rt) ?ks s)"
    by (simp add: deleteNode_def Let_def markDirty_def split: completion.split)
  also have "\<dots> = filter (\<lambda>(k, c). k \<notin> set ?ks) (connections s)"
    by (rule connections_fold_deleteConnection)
  also have "\<dots> = filter (\<lambda>(k, c). source c \<noteq> n \<and> target c \<noteq> n) (connections s)"
  proof (rule filter_cong [OF refl])
    fix x assume x: "x \<in> set (connections s)"
    obtain k c where kc: "x = (k, c)" by (cases x)
    with incident_keys [OF assms, of k c "\<lambda>c. source c = n \<or> target c = n"] x
    show "(case x of (k, c) \<Rightarrow> k \<notin> set ?ks) = (case x of (k, c) \<Rightarrow> source c \<noteq> n \<and> target c \<noteq> n)"
      by simp
  qed
  finally show ?thesis .
qed

lemma deleteNode_nodes:
  "nodes (snd (deleteNode rt pg n s)) = filter (\<lambda>(k, nd). k \<noteq> n) (nodes s)"
  by (simp add: deleteNode_def Let_def markDirty_def nodes_fold_deleteConnection
      AList.delete_eq eq_commute split: completion.split)

text \<open>
  C1. The keys of the connection map being distinct, as the keys of a \<open>Map\<close> are:
  \<open>deleteNode(n)\<close> leaves the node map without \<open>n\<close> and otherwise as it was, and leaves
  of the connection map exactly the connections that have \<open>n\<close> neither as source nor as
  target, in their order; so no connection refers to \<open>n\<close> afterwards, and every connection
  between two other nodes is still there. This holds whether or not the method gets
  past \<open>hideProperties\<close>.
\<close>

theorem deleteNode_cascade:
  assumes "distinct (map fst (connections s))"
  shows "nodes (snd (deleteNode rt pg n s)) = filter (\<lambda>(k, nd). k \<noteq> n) (nodes s)
       \<and> n \<notin> fst ` set (nodes (snd (deleteNode rt pg n s)))
       \<and> connections (snd (deleteNode rt pg n s))
           = filter (\<lambda>(k, c). source c \<noteq> n \<and> target c \<noteq> n) (connections s)
       \<and> (\<forall>(k, c) \<in> set (connections (snd (deleteNode rt pg n s))). source c \<noteq> n \<and> target c \<noteq> n)
       \<and> (\<forall>(k, c) \<in> set (connections s). source c \<noteq> n \<and> target c \<noteq> n
             \<longrightarrow> (k, c) \<in> set (connections (snd (deleteNode rt pg n s))))"
  using deleteNode_connections [OF assms, of rt pg n]
  by (auto simp: deleteNode_nodes)

theorem deleteNode_cascade_witness:
  "distinct (map fst (connections three_nodes))
   \<and> map fst (nodes (snd (deleteNode plain_rt editor_page (IdStr ''node_a'') three_nodes))) = [IdStr ''node_b'', IdStr ''node_c'']
   \<and> map fst (connections (snd (deleteNode plain_rt editor_page (IdStr ''node_a'') three_nodes))) = [IdStr ''node_bc'']"
proof -
  have h: "distinct (map fst (connections three_nodes))"
    by (simp add: three_nodes_def new_editor_def)
  note c = deleteNode_cascade [OF h, of plain_rt editor_page "IdStr ''node_a''"]
  have n: "nodes (snd (deleteNode plain_rt editor_page (IdStr ''node_a'') three_nodes))
             = filter (\<lambda>(k, nd). k \<noteq> IdStr ''node_a'') (nodes three_nodes)"
    using c by blast
  have e: "connections (snd (deleteNode plain_rt editor_page (IdStr ''node_a'') three_nodes))
             = filter (\<lambda>(k, c). source c \<noteq> IdStr ''node_a'' \<and> target c \<noteq> IdStr ''node_a'')
                 (connections three_nodes)"
    using c by blast
  show ?thesis
    unfolding n e
    by (simp add: three_nodes_def new_editor_def sample_connection_def)
qed

subsection \<open>The connection path\<close>




subsection \<open>Saving\<close>

text \<open>
  C2. When the request of \<open>saveWorkflow\<close> fails (\<open>fetch\<close> rejects, the body is not JSON,
  or the response is not OK), the resumed call ends in its own \<open>catch\<close> and \<open>finally\<close>
  blocks: it writes one line to the console, shows the one notification
  \<open>Failed to save workflow\<close> of type \<open>error\<close>, and sets \<open>isLoading\<close> to false. Every
  other field is as it was: nodes, connections, workflow, workflow id and dirty flag; no
  request is sent again.
\<close>

theorem saveWorkflow_failure:
  "saveWorkflow_resumed rt NetworkError s =
     s\<lparr>suspended := remove1 PendingSave (suspended s),
       console := console s @ [''Save error:''],
       notifications := notifications s @ [(''Failed to save workflow'', ''error'')],
       isLoading := False\<rparr>
   \<and> saveWorkflow_resumed rt (NotJson ok) s =
     s\<lparr>suspended := remove1 PendingSave (suspended s),
       console := console s @ [''Save error:''],
       notifications := notifications s @ [(''Failed to save workflow'', ''error'')],
       isLoading := False\<rparr>
   \<and> saveWorkflow_resumed rt (Json False result) s =
     s\<lparr>suspended := remove1 PendingSave (suspended s),
       console := console s @ [''Save error:''],
       notifications := notifications s @ [(''Failed to save workflow'', ''error'')],
       isLoading := False\<rparr>"
  by (simp add: saveWorkflow_resumed_def save_catch_def showNotification_def)

theorem saveWorkflow_failure_witness:
  "nodes (saveWorkflow_resumed plain_rt NetworkError
            (saveWorkflow plain_rt editor_page (markDirty three_nodes))) = nodes three_nodes
   \<and> connections (saveWorkflow_resumed plain_rt (NotJson True)
            (saveWorkflow plain_rt editor_page (markDirty three_nodes))) = connections three_nodes
   \<and> workflow (saveWorkflow_resumed plain_rt (Json False JNull)
            (saveWorkflow plain_rt editor_page (markDirty three_nodes))) = JNull
   \<and> workflowId (saveWorkflow_resumed plain_rt NetworkError
            (saveWorkflow plain_rt editor_page (markDirty three_nodes))) = JNull
   \<and> isDirty (saveWorkflow_resumed plain_rt NetworkError
            (saveWorkflow plain_rt editor_page (markDirty three_nodes)))
   \<and> \<not> isLoading (saveWorkflow_resumed plain_rt NetworkError
            (saveWorkflow plain_rt editor_page (markDirty three_nodes)))
   \<and> length (fetches (saveWorkflow_resumed plain_rt NetworkError
            (saveWorkflow plain_rt editor_page (markDirty three_nodes)))) = 1
   \<and> notifications (saveWorkflow_resumed plain_rt NetworkError
            (saveWorkflow plain_rt editor_page (markDirty three_nodes)))
        = [(''Failed to save workflow'', ''error'')]"
  using saveWorkflow_failure [of plain_rt "saveWorkflow plain_rt editor_page (markDirty three_nodes)"
      True JNull]
  by (simp add: saveWorkflow_def Let_def markDirty_def three_nodes_def new_editor_def)

lemma getWorkflowData_isLoading:
  "getWorkflowData pg (s\<lparr>isLoading := b\<rparr>) = getWorkflowData pg s"
  by (simp add: getWorkflowData_def)

text \<open>
  C4. With no workflow id (the test \<open>this.options.workflowId ? ... : ...\<close> fails)
  \<open>saveWorkflow\<close> sends \<open>POST /api/workflows/\<close>, with one it sends
  \<open>PUT /api/workflows/<id>/\<close>; either request carries the content of the page's
  \<open>csrf-token\<close> meta tag in the header \<open>X-CSRFToken\<close>. On an OK response whose body has
  an \<open>id\<close> to read (any body but \<open>null\<close>) the body becomes \<open>this.workflow\<close>, its \<open>id\<close>
  becomes \<open>options.workflowId\<close>, and \<open>isDirty\<close> is false.
\<close>

theorem saveWorkflow_request:
  "(\<not> isLoading s \<and> \<not> truthy (workflowId s) \<longrightarrow>
      fetches (saveWorkflow rt pg s) = fetches s @
        [\<lparr>req_method = ''POST'', req_url = ''/api/workflows/'',
          req_headers = [(''Content-Type'', ''application/json''),
                         (''X-CSRFToken'', getCsrfToken pg)],
          req_credentials = ''same-origin'', req_body = getWorkflowData pg s\<rparr>])
   \<and> (\<not> isLoading s \<and> truthy (workflowId s) \<longrightarrow>
      fetches (saveWorkflow rt pg s) = fetches s @
        [\<lparr>req_method = ''PUT'',
          req_url = ''/api/workflows/'' @ js_string rt (workflowId s) @ ''/'',
          req_headers = [(''Content-Type'', ''application/json''),
                         (''X-CSRFToken'', getCsrfToken pg)],
          req_credentials = ''same-origin'', req_body = getWorkflowData pg s\<rparr>])
   \<and> getCsrfToken pg = (case csrf_meta pg of None \<Rightarrow> [] | Some c \<Rightarrow> c)
   \<and> (get_prop result ''id'' = (Returned, i) \<longrightarrow>
        workflow (saveWorkflow_resumed rt (Json True result) s) = result
      \<and> workflowId (saveWorkflow_resumed rt (Json True result) s) = i
      \<and> \<not> isDirty (saveWorkflow_resumed rt (Json True result) s))"
  by (simp add: saveWorkflow_def Let_def getCsrfToken_def saveWorkflow_resumed_def
      showNotification_def getWorkflowData_isLoading)

theorem saveWorkflow_request_witness:
  "map req_method (fetches (saveWorkflow plain_rt editor_page (new_editor JNull))) = [''POST'']
   \<and> map req_url (fetches (saveWorkflow plain_rt editor_page (new_editor JNull)))
        = [''/api/workflows/'']
   \<and> map req_method (fetches (saveWorkflow plain_rt editor_page (new_editor (JStr ''42''))))
        = [''PUT'']
   \<and> map req_url (fetches (saveWorkflow plain_rt editor_page (new_editor (JStr ''42''))))
        = [''/api/workflows/42/'']
   \<and> map req_headers (fetches (saveWorkflow plain_rt editor_page (new_editor (JStr ''42''))))
        = [[(''Content-Type'', ''application/json''), (''X-CSRFToken'', ''tok'')]]
   \<and> workflowId (saveWorkflow_resumed plain_rt
          (Json True (JObj Plain [(''id'', JStr ''42''), (''name'', JStr ''Orders'')]))
          (saveWorkflow plain_rt editor_page (markDirty (new_editor JNull)))) = JStr ''42''
   \<and> \<not> isDirty (saveWorkflow_resumed plain_rt
          (Json True (JObj Plain [(''id'', JStr ''42''), (''name'', JStr ''Orders'')]))
          (saveWorkflow plain_rt editor_page (markDirty (new_editor JNull))))"
  using saveWorkflow_request [where s = "new_editor JNull" and rt = plain_rt and pg = editor_page
      and result = JNull and i = JNull]
    saveWorkflow_request [where s = "new_editor (JStr ''42'')" and rt = plain_rt
      and pg = editor_page and result = JNull and i = JNull]
    saveWorkflow_request [where s = "saveWorkflow plain_rt editor_page (markDirty (new_editor JNull))"
      and rt = plain_rt and pg = editor_page
      and result = "JObj Plain [(''id'', JStr ''42''), (''name'', JStr ''Orders'')]"
      and i = "JStr ''42''"]
  by (simp add: new_editor_def getCsrfToken_def editor_page_def)

subsection \<open>The busy flag\<close>

lemma saves_in_flight_pos: "PendingSave \<in> set (suspended s) \<Longrightarrow> 0 < saves_in_flight s"
  by (simp add: saves_in_flight_def filter_empty_conv)

lemma count_remove1:
  "x \<in> set xs \<Longrightarrow> length (filter (\<lambda>p. p = x) (remove1 x xs)) = length (filter (\<lambda>p. p = x) xs) - 1"
  by (induction xs) auto

lemma saveWorkflow_resumed_flight:
  "isLoading (saveWorkflow_resumed rt resp s) = False"
  "PendingSave \<in> set (suspended s) \<Longrightarrow>
     saves_in_flight (saveWorkflow_resumed rt resp s) = saves_in_flight s - 1"
proof -
  show "isLoading (saveWorkflow_resumed rt resp s) = False"
    by (simp add: saveWorkflow_resumed_def Let_def)
  have "suspended (saveWorkflow_resumed rt resp s) = remove1 PendingSave (suspended s)"
    by (simp add: saveWorkflow_resumed_def Let_def save_catch_def showNotification_def
        split: response.split prod.split completion.split)
  then show "saves_in_flight (saveWorkflow_resumed rt resp s) = saves_in_flight s - 1"
    if "PendingSave \<in> set (suspended s)"
    using that by (simp add: saves_in_flight_def count_remove1)
qed

lemma saveWorkflow_flight:
  "isLoading (saveWorkflow rt pg s)"
  "saves_in_flight (saveWorkflow rt pg s) = (if isLoading s then saves_in_flight s else saves_in_flight s + 1)"
  by (simp_all add: saveWorkflow_def Let_def saves_in_flight_def)

lemma reachable_busy:
  "reachable rt s \<Longrightarrow> saves_in_flight s = (if isLoading s then 1 else 0)"
proof (induction rule: reachable.induct)
  case (constructed wid)
  show ?case by (simp add: new_editor_def saves_in_flight_def)
next
  case (after s pg ev)
  show ?case
  proof (cases "ev = SaveWorkflow \<or> (\<exists>r. ev = SaveResponse r)")
    case False
    then have "keeps s (step rt pg ev s)" by (intro keeps_step) auto
    with after.IH show ?thesis by (simp add: keeps_def)
  next
    case True
    then show ?thesis
    proof
      assume "ev = SaveWorkflow"
      with after.IH show ?thesis by (simp add: saveWorkflow_flight)
    next
      assume "\<exists>r. ev = SaveResponse r"
      then obtain r where r: "ev = SaveResponse r" ..
      show ?thesis
      proof (cases "PendingSave \<in> set (suspended s)")
        case False
        with r after.IH show ?thesis by simp
      next
        case True
        from saves_in_flight_pos [OF True] after.IH have "saves_in_flight s = 1"
          by (simp split: if_splits)
        with r True show ?thesis by (simp add: saveWorkflow_resumed_flight)
      qed
    qed
  qed
qed

text \<open>
  C3. A call of \<open>saveWorkflow\<close> while \<open>isLoading\<close> is true returns the state unchanged
  (no request, nothing assigned). Otherwise the call sets \<open>isLoading\<close>, sends one request
  and is suspended; when it resumes, whatever the response, \<open>isLoading\<close> is false again.
  So in every state the editor can reach at most one save is in flight, and one is in
  flight exactly when \<open>isLoading\<close> is true.
\<close>

theorem save_busy_flag:
  "(isLoading s \<longrightarrow> saveWorkflow rt pg s = s)
   \<and> (\<not> isLoading s \<longrightarrow>
        isLoading (saveWorkflow rt pg s)
      \<and> length (fetches (saveWorkflow rt pg s)) = length (fetches s) + 1
      \<and> saves_in_flight (saveWorkflow rt pg s) = saves_in_flight s + 1)
   \<and> \<not> isLoading (saveWorkflow_resumed rt resp s)
   \<and> (reachable rt s \<longrightarrow>
        saves_in_flight s \<le> 1 \<and> (isLoading s \<longleftrightarrow> saves_in_flight s = 1))"
proof (intro conjI impI)
  show "saveWorkflow rt pg s = s" if "isLoading s"
    using that by (simp add: saveWorkflow_def)
  show "isLoading (saveWorkflow rt pg s)" by (rule saveWorkflow_flight)
  show "length (fetches (saveWorkflow rt pg s)) = length (fetches s) + 1" if "\<not> isLoading s"
    using that by (simp add: saveWorkflow_def Let_def)
  show "saves_in_flight (saveWorkflow rt pg s) = saves_in_flight s + 1" if "\<not> isLoading s"
    using that by (simp add: saveWorkflow_flight)
  show "\<not> isLoading (saveWorkflow_resumed rt resp s)"
    by (simp add: saveWorkflow_resumed_flight)
  show "saves_in_flight s \<le> 1" if "reachable rt s"
    using reachable_busy [OF that] by simp
  show "isLoading s \<longleftrightarrow> saves_in_flight s = 1" if "reachable rt s"
    using reachable_busy [OF that] by simp
qed

theorem save_busy_flag_witness:
  "reachable plain_rt (saveWorkflow plain_rt editor_page (new_editor JNull))
   \<and> isLoading (saveWorkflow plain_rt editor_page (new_editor JNull))
   \<and> saveWorkflow plain_rt editor_page (saveWorkflow plain_rt editor_page (new_editor JNull))
       = saveWorkflow plain_rt editor_page (new_editor JNull)
   \<and> saves_in_flight (saveWorkflow plain_rt editor_page (new_editor JNull)) = 1"
proof -
  let ?s = "saveWorkflow plain_rt editor_page (new_editor JNull)"
  have r: "reachable plain_rt ?s"
    using reachable.after [OF reachable.constructed [of plain_rt JNull],
        where pg = editor_page and ev = SaveWorkflow]
    by simp
  have l: "isLoading ?s" by (simp add: saveWorkflow_def Let_def new_editor_def)
  note t = save_busy_flag [of ?s plain_rt editor_page NetworkError]
  from t l have "saveWorkflow plain_rt editor_page ?s = ?s" by blast
  moreover from t r l have "saves_in_flight ?s = 1" by blast
  ultimately show ?thesis using r l by simp
qed

subsection \<open>The URL of a new workflow\<close>

lemma saveWorkflow_resumed_history:
  assumes "history (saveWorkflow_resumed rt resp s) \<noteq> history s"
  shows "\<exists>result i. resp = Json True result \<and> get_prop result ''id'' = (Returned, i) \<and> \<not> truthy i
          \<and> history (saveWorkflow_resumed rt resp s) = history s @ [''/workflows/'' @ js_string rt i @ ''/edit/'']"
proof (cases resp)
  case NetworkError
  with assms show ?thesis
    by (simp add: saveWorkflow_resumed_def save_catch_def showNotification_def)
next
  case (NotJson ok)
  with assms show ?thesis
    by (simp add: saveWorkflow_resumed_def save_catch_def showNotification_def)
next
  case (Json ok result)
  show ?thesis
  proof (cases ok)
    case False
    with Json assms show ?thesis
      by (simp add: saveWorkflow_resumed_def save_catch_def showNotification_def)
  next
    case True
    obtain r i where g: "get_prop result ''id'' = (r, i)" by (cases "get_prop result ''id''")
    show ?thesis
    proof (cases r)
      case Returned
      with Json True g assms show ?thesis
        by (cases "truthy i") (simp_all add: saveWorkflow_resumed_def showNotification_def Let_def)
    next
      case TypeError
      with Json True g assms show ?thesis
        by (simp add: saveWorkflow_resumed_def save_catch_def showNotification_def)
    qed
  qed
qed

text \<open>
  \<open>options.workflowId\<close> is assigned the returned \<open>id\<close> before it is tested. So on an OK
  response whose \<open>id\<close> can be read, \<open>history.replaceState\<close> is called exactly when that
  \<open>id\<close> is falsy, whatever the workflow id was before; and no other event calls it.
\<close>

lemma replaceState_iff_falsy_id:
  "(get_prop result ''id'' = (Returned, i) \<and> truthy i \<longrightarrow>
        workflowId (saveWorkflow_resumed rt (Json True result) s) = i
      \<and> truthy (workflowId (saveWorkflow_resumed rt (Json True result) s))
      \<and> history (saveWorkflow_resumed rt (Json True result) s) = history s)
   \<and> (get_prop result ''id'' = (Returned, i) \<and> \<not> truthy i \<longrightarrow>
        workflowId (saveWorkflow_resumed rt (Json True result) s) = i
      \<and> history (saveWorkflow_resumed rt (Json True result) s)
          = history s @ [''/workflows/'' @ js_string rt i @ ''/edit/''])
   \<and> (history (step rt pg ev s) \<noteq> history s \<longrightarrow>
        (\<exists>res j. ev = SaveResponse (Json True res) \<and> get_prop res ''id'' = (Returned, j)
                 \<and> \<not> truthy j))"
proof (intro conjI impI)
  assume a: "get_prop result ''id'' = (Returned, i) \<and> truthy i"
  then show "workflowId (saveWorkflow_resumed rt (Json True result) s) = i"
    and "history (saveWorkflow_resumed rt (Json True result) s) = history s"
    by (simp_all add: saveWorkflow_resumed_def showNotification_def Let_def)
  with a show "truthy (workflowId (saveWorkflow_resumed rt (Json True result) s))" by simp
next
  assume a: "get_prop result ''id'' = (Returned, i) \<and> \<not> truthy i"
  then show "workflowId (saveWorkflow_resumed rt (Json True result) s) = i"
    and "history (saveWorkflow_resumed rt (Json True result) s)
          = history s @ [''/workflows/'' @ js_string rt i @ ''/edit/'']"
    by (simp_all add: saveWorkflow_resumed_def showNotification_def Let_def)
next
  assume h: "history (step rt pg ev s) \<noteq> history s"
  show "\<exists>res j. ev = SaveResponse (Json True res) \<and> get_prop res ''id'' = (Returned, j) \<and> \<not> truthy j"
  proof (cases "ev = SaveWorkflow \<or> (\<exists>r. ev = SaveResponse r)")
    case False
    then have "keeps s (step rt pg ev s)" by (intro keeps_step) auto
    with h show ?thesis by (simp add: keeps_def)
  next
    case True
    then show ?thesis
    proof
      assume "ev = SaveWorkflow"
      with h show ?thesis by (simp add: saveWorkflow_def Let_def split: if_splits)
    next
      assume "\<exists>r. ev = SaveResponse r"
      then obtain r where r: "ev = SaveResponse r" ..
      with h have "history (saveWorkflow_resumed rt r s) \<noteq> history s"
        by (simp split: if_splits)
      from saveWorkflow_resumed_history [OF this] r show ?thesis by auto
    qed
  qed
qed

text \<open>
  C10, where the code fails it. The comment above the test says
  \<open>Update URL if this was a new workflow\<close>, but the test reads the id that the line
  before has just assigned. An editor of the saved workflow 7 sends its \<open>PUT\<close>, the answer
  is OK with \<open>id\<close> 0: the editor takes 0 for its workflow id and rewrites the URL to
  \<open>/workflows/0/edit/\<close>, for a workflow that was not new. An editor of a new workflow
  sends its \<open>POST\<close>, the answer is OK with \<open>id\<close> 42: the URL is not rewritten. An answer
  without \<open>id\<close> leaves the workflow id \<open>undefined\<close> and rewrites the URL to
  \<open>/workflows/undefined/edit/\<close>.
\<close>

theorem replaceState_after_update:
  "map req_method (fetches (saveWorkflow plain_rt editor_page (new_editor (JStr ''7''))))
     = [''PUT'']
   \<and> map req_url (fetches (saveWorkflow plain_rt editor_page (new_editor (JStr ''7''))))
     = [''/api/workflows/7/'']
   \<and> workflowId (saveWorkflow_resumed plain_rt
        (Json True (JObj Plain [(''id'', JNum 0), (''name'', JStr ''Orders'')]))
        (saveWorkflow plain_rt editor_page (new_editor (JStr ''7'')))) = JNum 0
   \<and> history (saveWorkflow_resumed plain_rt
        (Json True (JObj Plain [(''id'', JNum 0), (''name'', JStr ''Orders'')]))
        (saveWorkflow plain_rt editor_page (new_editor (JStr ''7'')))) = [''/workflows/0/edit/'']
   \<and> notifications (saveWorkflow_resumed plain_rt
        (Json True (JObj Plain [(''id'', JNum 0), (''name'', JStr ''Orders'')]))
        (saveWorkflow plain_rt editor_page (new_editor (JStr ''7''))))
     = [(''Workflow saved successfully'', ''success'')]
   \<and> map req_method (fetches (saveWorkflow plain_rt editor_page (new_editor JNull)))
     = [''POST'']
   \<and> workflowId (saveWorkflow_resumed plain_rt
        (Json True (JObj Plain [(''id'', JNum 42), (''name'', JStr ''Orders'')]))
        (saveWorkflow plain_rt editor_page (new_editor JNull))) = JNum 42
   \<and> history (saveWorkflow_resumed plain_rt
        (Json True (JObj Plain [(''id'', JNum 42), (''name'', JStr ''Orders'')]))
        (saveWorkflow plain_rt editor_page (new_editor JNull))) = []
   \<and> workflowId (saveWorkflow_resumed plain_rt
        (Json True (JObj Plain [(''name'', JStr ''Orders'')]))
        (saveWorkflow plain_rt editor_page (new_editor JNull))) = JUndefined
   \<and> history (saveWorkflow_resumed plain_rt
        (Json True (JObj Plain [(''name'', JStr ''Orders'')]))
        (saveWorkflow plain_rt editor_page (new_editor JNull)))
     = [''/workflows/undefined/edit/'']"
  by (simp add: saveWorkflow_resumed_def saveWorkflow_def Let_def new_editor_def
      showNotification_def plain_rt_def print_nat_def digit_def)

subsection \<open>Workflow properties\<close>

text \<open>
  C5. \<open>updateWorkflowProperty(p, v)\<close> on an editor without workflow (\<open>!this.workflow\<close>)
  creates the object with name \<open>Untitled Workflow\<close>, empty description and the definition
  \<open>{nodes: [], connections: []}\<close>, sets \<open>p\<close> to \<open>v\<close> in it and marks the editor dirty.
  On an editor whose workflow is an object it sets \<open>p\<close> to \<open>v\<close> in that object and marks
  the editor dirty: \<open>p\<close> then reads \<open>v\<close> and every other property reads as before.
\<close>

theorem updateWorkflowProperty_creates:
  "(\<not> truthy (workflow s) \<longrightarrow>
      updateWorkflowProperty p v s =
        (Returned, s\<lparr>workflow := JObj Plain (AList.update p v
            [(''name'', JStr ''Untitled Workflow''), (''description'', JStr []),
             (''definition'', JObj Plain [(''nodes'', JObj Array []),
                                          (''connections'', JObj Array [])])]),
          isDirty := True\<rparr>))
   \<and> (workflow s = JObj kd ps \<longrightarrow>
      updateWorkflowProperty p v s =
        (Returned, s\<lparr>workflow := JObj kd (AList.update p v ps), isDirty := True\<rparr>)
      \<and> map_of (AList.update p v ps) p = Some v
      \<and> (\<forall>q. q \<noteq> p \<longrightarrow> map_of (AList.update p v ps) q = map_of ps q))"
  by (simp add: updateWorkflowProperty_def untitled_def markDirty_def Let_def update_conv')

theorem updateWorkflowProperty_creates_witness:
  "updateWorkflowProperty ''name'' (JStr ''Orders'') (new_editor JNull) =
     (Returned, (new_editor JNull)
        \<lparr>workflow := JObj Plain
           [(''name'', JStr ''Orders''), (''description'', JStr []),
            (''definition'', JObj Plain [(''nodes'', JObj Array []),
                                         (''connections'', JObj Array [])])],
         isDirty := True\<rparr>)
   \<and> updateWorkflowProperty ''description'' (JStr ''daily'')
        ((new_editor JNull)\<lparr>workflow := JObj Plain [(''id'', JNum 7), (''description'', JStr [])]\<rparr>) =
     (Returned, (new_editor JNull)
        \<lparr>workflow := JObj Plain [(''id'', JNum 7), (''description'', JStr ''daily'')],
          isDirty := True\<rparr>)"
  using updateWorkflowProperty_creates [where s = "new_editor JNull" and p = "''name''"
      and v = "JStr ''Orders''" and kd = Plain and ps = "[]"]
    updateWorkflowProperty_creates [where p = "''description''" and v = "JStr ''daily''"
      and s = "(new_editor JNull)\<lparr>workflow := JObj Plain [(''id'', JNum 7), (''description'', JStr [])]\<rparr>"
      and kd = Plain and ps = "[(''id'', JNum 7), (''description'', JStr [])]"]
  by (simp add: new_editor_def)

subsection \<open>Testing and deploying need an id\<close>

text \<open>
  C6. Without workflow id, \<open>testWorkflow\<close> and \<open>deployWorkflow\<close> show the warning
  \<open>Please save the workflow first\<close> and do nothing else. Whenever one of them sends a
  request, the workflow id is truthy and the request goes to
  \<open>/api/workflows/<id>/test/\<close> or \<open>/api/workflows/<id>/activate/\<close> with that id.
\<close>

theorem test_deploy_need_id:
  "(\<not> truthy (workflowId s) \<longrightarrow>
      testWorkflow rt pg s =
        s\<lparr>notifications := notifications s @ [(''Please save the workflow first'', ''warning'')]\<rparr>
    \<and> deployWorkflow rt pg c s =
        s\<lparr>notifications := notifications s @ [(''Please save the workflow first'', ''warning'')]\<rparr>)
   \<and> (fetches (testWorkflow rt pg s) \<noteq> fetches s \<longrightarrow>
        truthy (workflowId s)
      \<and> fetches (testWorkflow rt pg s) = fetches s @
          [\<lparr>req_method = ''POST'',
            req_url = ''/api/workflows/'' @ js_string rt (workflowId s) @ ''/test/'',
            req_headers = [(''Content-Type'', ''application/json''),
                           (''X-CSRFToken'', getCsrfToken pg)],
            req_credentials = ''same-origin'', req_body = TestInput\<rparr>])
   \<and> (fetches (deployWorkflow rt pg c s) \<noteq> fetches s \<longrightarrow>
        truthy (workflowId s)
      \<and> fetches (deployWorkflow rt pg c s) = fetches s @
          [\<lparr>req_method = ''POST'',
            req_url = ''/api/workflows/'' @ js_string rt (workflowId s) @ ''/activate/'',
            req_headers = [(''X-CSRFToken'', getCsrfToken pg)],
            req_credentials = ''same-origin'', req_body = NoBody\<rparr>])"
  by (simp add: testWorkflow_def deployWorkflow_def showNotification_def Let_def)

theorem test_deploy_need_id_witness:
  "testWorkflow plain_rt editor_page (new_editor JNull) =
     (new_editor JNull)\<lparr>notifications := [(''Please save the workflow first'', ''warning'')]\<rparr>
   \<and> deployWorkflow plain_rt editor_page True (new_editor (JStr [])) =
     (new_editor (JStr []))\<lparr>notifications := [(''Please save the workflow first'', ''warning'')]\<rparr>
   \<and> map req_url (fetches (testWorkflow plain_rt editor_page (new_editor (JStr ''42''))))
        = [''/api/workflows/42/test/'']
   \<and> map req_url (fetches (deployWorkflow plain_rt editor_page True (new_editor (JStr ''42''))))
        = [''/api/workflows/42/activate/'']"
proof -
  note a = test_deploy_need_id [where s = "new_editor JNull" and rt = plain_rt
      and pg = editor_page and c = True]
  note b = test_deploy_need_id [where s = "new_editor (JStr [])" and rt = plain_rt
      and pg = editor_page and c = True]
  note c = test_deploy_need_id [where s = "new_editor (JStr ''42'')" and rt = plain_rt
      and pg = editor_page and c = True]
  have 1: "testWorkflow plain_rt editor_page (new_editor JNull) =
     (new_editor JNull)\<lparr>notifications := [(''Please save the workflow first'', ''warning'')]\<rparr>"
    using a by (simp add: new_editor_def)
  have 2: "deployWorkflow plain_rt editor_page True (new_editor (JStr [])) =
     (new_editor (JStr []))\<lparr>notifications := [(''Please save the workflow first'', ''warning'')]\<rparr>"
    using b by (simp add: new_editor_def)
  have 3: "fetches (testWorkflow plain_rt editor_page (new_editor (JStr ''42''))) \<noteq> fetches (new_editor (JStr ''42''))"
    by (simp add: testWorkflow_def Let_def new_editor_def)
  have 4: "fetches (deployWorkflow plain_rt editor_page True (new_editor (JStr ''42''))) \<noteq> fetches (new_editor (JStr ''42''))"
    by (simp add: deployWorkflow_def Let_def new_editor_def)
  from c 3 have 5: "map req_url (fetches (testWorkflow plain_rt editor_page (new_editor (JStr ''42''))))
        = [''/api/workflows/42/test/'']"
    by (simp add: new_editor_def)
  from c 4 have 6: "map req_url (fetches (deployWorkflow plain_rt editor_page True (new_editor (JStr ''42''))))
        = [''/api/workflows/42/activate/'']"
    by (simp add: new_editor_def)
  from 1 2 5 6 show ?thesis by blast
qed

subsection \<open>Connections drawn by hand\<close>

lemma set_update_cases:
  "(k', v') \<in> set (AList.update k v al) \<Longrightarrow> (k', v') = (k, v) \<or> (k', v') \<in> set al"
  by (induction al) (auto split: if_splits)

lemma addConnection_connections:
  "connections (snd (addConnection rt pg i a ah b bh s)) =
     AList.update (IdStr i)
       \<lparr>conn_id = IdStr i, source = a, sourceHandle = ah, target = b, targetHandle = bh\<rparr>
       (connections s)"
  by (simp add: addConnection_def renderConnection_def markDirty_def Let_def split: option.split)

lemma onConnectionEnd_idle:
  "\<not> isConnecting s \<Longrightarrow> onConnectionEnd rt pg i tgt s = (Returned, s)"
  by (simp add: onConnectionEnd_def)

text \<open>\<open>startConnection\<close> ignores a handle that is not an output handle.\<close>

lemma startConnection_not_output: "startConnection n h False s = s"
  by (simp add: startConnection_def)

text \<open>
  When \<open>onConnectionEnd\<close> changes the connections, a drag was under way, the target has
  the classes \<open>node-handle\<close> and \<open>input\<close>, and one connection was set: from the id where
  the drag started to the id read from the attribute, the two being different values.
\<close>

lemma onConnectionEnd_adds:
  assumes "connections (snd (onConnectionEnd rt pg i tgt s)) \<noteq> connections s"
  obtains t classes attr a ah where "tgt = Some t" "isConnecting s"
    "connectionStart s = Some (a, ah)" "classList t = Some classes"
    "''node-handle'' \<in> set classes" "''input'' \<in> set classes"
    "closest_workflow_node t = Some attr" "attribute_id attr \<noteq> a"
    "connections (snd (onConnectionEnd rt pg i tgt s)) =
       AList.update (IdStr i)
         \<lparr>conn_id = IdStr i, source = a, sourceHandle = ah, target = attribute_id attr,
          targetHandle = dataset_handle t\<rparr> (connections s)"
proof -
  from assms have c: "isConnecting s"
    using onConnectionEnd_idle [of s rt pg i tgt] by (cases "isConnecting s") simp_all
  from assms c obtain t where t: "tgt = Some t"
    by (cases tgt) (simp_all add: onConnectionEnd_def)
  from assms c t obtain classes where cl: "classList t = Some classes"
    by (cases "classList t") (simp_all add: onConnectionEnd_def)
  from assms c t cl have h: "''node-handle'' \<in> set classes" "''input'' \<in> set classes"
    by (auto simp: onConnectionEnd_def split: if_splits)
  from assms c t cl h obtain attr where b: "closest_workflow_node t = Some attr"
    by (cases "closest_workflow_node t") (simp_all add: onConnectionEnd_def)
  from assms c t cl h b obtain a ah where a: "connectionStart s = Some (a, ah)"
    by (cases "connectionStart s") (auto simp add: onConnectionEnd_def Let_def)
  from assms c t cl h b a have ne: "attribute_id attr \<noteq> a"
    by (auto simp: onConnectionEnd_def Let_def)
  have "connections (snd (onConnectionEnd rt pg i tgt s)) =
          connections (snd (addConnection rt pg i a ah (attribute_id attr) (dataset_handle t) s))"
    using c t cl h b a ne
    by (cases "addConnection rt pg i a ah (attribute_id attr) (dataset_handle t) s")
       (simp add: onConnectionEnd_def Let_def split: completion.split)
  with that [OF t c a cl h b ne] show thesis
    by (simp add: addConnection_connections)
qed

lemma onConnectionEnd_new:
  assumes "(k, c) \<in> set (connections (snd (onConnectionEnd rt pg i tgt s)))"
    and "(k, c) \<notin> set (connections s)"
  shows "isConnecting s \<and> source c \<noteq> target c
       \<and> (\<exists>t classes attr. tgt = Some t \<and> classList t = Some classes
              \<and> ''node-handle'' \<in> set classes \<and> ''input'' \<in> set classes
              \<and> closest_workflow_node t = Some attr \<and> target c = attribute_id attr)
       \<and> connectionStart s = Some (source c, sourceHandle c)"
proof -
  from assms have "connections (snd (onConnectionEnd rt pg i tgt s)) \<noteq> connections s"
    by auto
  then obtain t classes attr a ah where f: "tgt = Some t" "isConnecting s"
    "connectionStart s = Some (a, ah)" "classList t = Some classes"
    "''node-handle'' \<in> set classes" "''input'' \<in> set classes"
    "closest_workflow_node t = Some attr" "attribute_id attr \<noteq> a"
    "connections (snd (onConnectionEnd rt pg i tgt s)) =
       AList.update (IdStr i)
         \<lparr>conn_id = IdStr i, source = a, sourceHandle = ah, target = attribute_id attr,
          targetHandle = dataset_handle t\<rparr> (connections s)"
    by (rule onConnectionEnd_adds)
  from assms f(9) have "c = \<lparr>conn_id = IdStr i, source = a, sourceHandle = ah,
                        target = attribute_id attr, targetHandle = dataset_handle t\<rparr>"
    by (auto dest: set_update_cases)
  with f show ?thesis by simp
qed

text \<open>
  Where the drag started at a node whose id is a string, as every id of \<open>generateId\<close> is,
  the test does what it is there for: the connection does not end at the element of the
  node it starts from.
\<close>

lemma drag_flow_string_ids:
  assumes "(k, c) \<in> set (connections (snd (onConnectionEnd rt pg i (Some t) s)))"
    and "(k, c) \<notin> set (connections s)"
    and "source c = IdStr a"
  shows "closest_workflow_node t \<noteq> Some (Some (id_string rt (source c)))"
proof
  assume e: "closest_workflow_node t = Some (Some (id_string rt (source c)))"
  from onConnectionEnd_new [OF assms(1,2)] obtain attr
    where "closest_workflow_node t = Some attr" "target c = attribute_id attr"
      "source c \<noteq> target c"
    by auto
  with e assms(3) show False
    by (simp add: id_string_def attribute_id_def)
qed

text \<open>
  C7, where the code fails it. The page gave the editor a node whose id is the number 2;
  its element carries \<open>data-node-id="2"\<close>. A drag from the output handle of that node,
  released on the input handle of the same node: \<open>onConnectionEnd\<close> compares the string
  \<open>2\<close> from the attribute with the number 2 by \<open>!==\<close>, finds them different, and
  \<open>addConnection\<close> stores a connection from the node to itself.
\<close>

theorem drag_onto_own_input:
  "numbered = (new_editor (JNum 5))
      \<lparr>nodes := [(IdNum 2, sample_node (IdNum 2))], node_els := {''2''}\<rparr>
   \<and> id_string plain_rt (IdNum 2) = ''2''
   \<and> closest_workflow_node input_handle_of_2 = Some (Some (id_string plain_rt (IdNum 2)))
   \<and> onConnectionEnd plain_rt editor_page ''node_k3x'' (Some input_handle_of_2)
        (startConnection (IdNum 2) (Some ''output'') True numbered)
      = (Returned,
         numbered
           \<lparr>connections :=
              [(IdStr ''node_k3x'',
                \<lparr>conn_id = IdStr ''node_k3x'', source = IdNum 2, sourceHandle = Some ''output'',
                 target = IdStr ''2'', targetHandle = Some ''input''\<rparr>)],
            isDirty := True\<rparr>)"
  by (simp add: numbered_def loadWorkflow_def renderNode_def id_string_def plain_rt_def
      print_nat_def digit_def sample_node_def new_editor_def editor_page_def
      input_handle_of_2_def onConnectionEnd_def startConnection_def addConnection_def
      renderConnection_def attribute_id_def markDirty_def Let_def)

subsection \<open>The dirty flag\<close>

lemma renderNode_complete:
  "complete_page pg \<Longrightarrow> fst (renderNode rt pg nd s) = Returned"
  by (simp add: complete_page_def renderNode_def)

lemma renderConnection_complete:
  "complete_page pg \<Longrightarrow> fst (renderConnection rt pg c s) = Returned"
  by (simp add: complete_page_def renderConnection_def getNodeHandlePosition_def split: option.split)

lemma addNode_dirty:
  "fst (addNode rt pg i nt pos s) = Returned \<Longrightarrow> isDirty (snd (addNode rt pg i nt pos s))"
  by (simp add: addNode_def Let_def markDirty_def split: prod.splits completion.splits)

lemma addNode_complete:
  "complete_page pg \<Longrightarrow> fst (addNode rt pg i nt pos s) = Returned"
  by (simp add: addNode_def Let_def complete_page_def renderNode_def)

lemma addConnection_dirty:
  "fst (addConnection rt pg i a ah b bh s) = Returned \<Longrightarrow> isDirty (snd (addConnection rt pg i a ah b bh s))"
  by (simp add: addConnection_def Let_def markDirty_def split: prod.splits completion.splits)

lemma addConnection_complete:
  "complete_page pg \<Longrightarrow> fst (addConnection rt pg i a ah b bh s) = Returned"
  using renderConnection_complete [of pg rt]
  by (simp add: addConnection_def Let_def split: prod.splits completion.splits) (metis completion.distinct(1) fst_conv)

lemma deleteNode_dirty:
  "fst (deleteNode rt pg n s) = Returned \<Longrightarrow> isDirty (snd (deleteNode rt pg n s))"
  by (simp add: deleteNode_def Let_def markDirty_def split: completion.splits)

lemma deleteNode_complete:
  "complete_page pg \<Longrightarrow> fst (deleteNode rt pg n s) = Returned"
  by (simp add: deleteNode_def Let_def complete_page_def hideProperties_def)

lemma updateNodeProperty_dirty:
  "map_of (nodes s) i \<noteq> None \<Longrightarrow> fst (updateNodeProperty rt pg i p v s) = Returned
     \<Longrightarrow> isDirty (snd (updateNodeProperty rt pg i p v s))"
  by (auto simp: updateNodeProperty_def Let_def markDirty_def split: prod.splits completion.splits)

lemma updateNodeProperty_complete:
  "complete_page pg \<Longrightarrow> fst (updateNodeProperty rt pg i p v s) = Returned"
  by (simp add: updateNodeProperty_def Let_def complete_page_def renderNode_def split: option.split)

lemma updateWorkflowProperty_dirty:
  assumes "fst (updateWorkflowProperty p v s) = Returned"
  shows "isDirty (snd (updateWorkflowProperty p v s))"
proof -
  let ?s1 = "if \<not> truthy (workflow s) then s\<lparr>workflow := untitled\<rparr> else s"
  obtain r w where g: "set_prop (workflow ?s1) p v = (r, w)"
    by (cases "set_prop (workflow ?s1) p v")
  with assms have "r = Returned"
    by (cases r) (simp_all add: updateWorkflowProperty_def Let_def)
  with g show ?thesis
    by (simp add: updateWorkflowProperty_def Let_def markDirty_def)
qed

lemma updateWorkflowProperty_complete:
  "\<not> truthy (workflow s) \<or> workflow s = JObj kd ps \<Longrightarrow> fst (updateWorkflowProperty p v s) = Returned"
  by (auto simp: updateWorkflowProperty_def Let_def untitled_def)

lemma saveWorkflow_dirty: "isDirty (saveWorkflow rt pg s) = isDirty s"
  by (simp add: saveWorkflow_def Let_def)

lemma saveWorkflow_resumed_clears:
  assumes "isDirty s" and "\<not> isDirty (saveWorkflow_resumed rt resp s)"
  shows "\<exists>result i. resp = Json True result \<and> get_prop result ''id'' = (Returned, i)"
proof (cases resp)
  case NetworkError
  with assms show ?thesis
    by (simp add: saveWorkflow_resumed_def save_catch_def showNotification_def)
next
  case (NotJson ok)
  with assms show ?thesis
    by (simp add: saveWorkflow_resumed_def save_catch_def showNotification_def)
next
  case (Json ok result)
  show ?thesis
  proof (cases ok)
    case False
    with Json assms show ?thesis
      by (simp add: saveWorkflow_resumed_def save_catch_def showNotification_def)
  next
    case True
    obtain r i where g: "get_prop result ''id'' = (r, i)" by (cases "get_prop result ''id''")
    show ?thesis
    proof (cases r)
      case Returned
      with Json True g show ?thesis by simp
    next
      case TypeError
      with Json True g assms show ?thesis
        by (simp add: saveWorkflow_resumed_def save_catch_def showNotification_def)
    qed
  qed
qed

lemma step_clears:
  assumes "isDirty s" and "\<not> isDirty (step rt pg ev s)"
  shows "\<exists>result i. ev = SaveResponse (Json True result) \<and> get_prop result ''id'' = (Returned, i)"
proof (cases "ev = SaveWorkflow \<or> (\<exists>r. ev = SaveResponse r)")
  case False
  then have "keeps s (step rt pg ev s)" by (intro keeps_step) auto
  with assms show ?thesis by (simp add: keeps_def)
next
  case True
  then show ?thesis
  proof
    assume "ev = SaveWorkflow"
    with assms show ?thesis by (simp add: saveWorkflow_dirty)
  next
    assume "\<exists>r. ev = SaveResponse r"
    then obtain r where r: "ev = SaveResponse r" ..
    with assms have "\<not> isDirty (saveWorkflow_resumed rt r s)"
      by (simp split: if_splits)
    from saveWorkflow_resumed_clears [OF assms(1) this] r show ?thesis by simp
  qed
qed

text \<open>
  Each of these methods ends in \<open>markDirty\<close>: when it returns, \<open>isDirty\<close> is true, and on
  a page that has the canvas, its layers and the properties panel it does return
  (\<open>updateWorkflowProperty\<close>: when the workflow is missing or an object). The only event
  after which a dirty editor is no longer dirty is an OK response to a save; a failed save
  leaves \<open>isDirty\<close> as it was.
\<close>

lemma markDirty_when_returned:
  "(complete_page pg \<longrightarrow>
       addNode rt pg i nt pos s = (Returned, snd (addNode rt pg i nt pos s))
     \<and> isDirty (snd (addNode rt pg i nt pos s))
     \<and> addConnection rt pg i a ah b bh s = (Returned, snd (addConnection rt pg i a ah b bh s))
     \<and> isDirty (snd (addConnection rt pg i a ah b bh s))
     \<and> deleteNode rt pg n s = (Returned, snd (deleteNode rt pg n s))
     \<and> isDirty (snd (deleteNode rt pg n s))
     \<and> (map_of (nodes s) n \<noteq> None \<longrightarrow>
          updateNodeProperty rt pg n p v s = (Returned, snd (updateNodeProperty rt pg n p v s))
        \<and> isDirty (snd (updateNodeProperty rt pg n p v s))))
   \<and> isDirty (deleteConnection rt k s)
   \<and> isDirty (onNodeDragEnd s)
   \<and> (\<not> truthy (workflow s) \<or> workflow s = JObj kd ps \<longrightarrow>
        updateWorkflowProperty p v s = (Returned, snd (updateWorkflowProperty p v s))
      \<and> isDirty (snd (updateWorkflowProperty p v s)))
   \<and> (isDirty s \<and> \<not> isDirty (step rt pg ev s) \<longrightarrow>
        (\<exists>result. ev = SaveResponse (Json True result)))
   \<and> isDirty (saveWorkflow_resumed rt NetworkError s) = isDirty s
   \<and> isDirty (saveWorkflow_resumed rt (NotJson ok) s) = isDirty s
   \<and> isDirty (saveWorkflow_resumed rt (Json False result) s) = isDirty s"
proof (intro conjI impI)
  assume c: "complete_page pg"
  have 1: "fst (addNode rt pg i nt pos s) = Returned" using c by (rule addNode_complete)
  then show "addNode rt pg i nt pos s = (Returned, snd (addNode rt pg i nt pos s))"
    by (simp add: prod_eq_iff)
  from 1 show "isDirty (snd (addNode rt pg i nt pos s))" by (rule addNode_dirty)
  have 2: "fst (addConnection rt pg i a ah b bh s) = Returned"
    using c by (rule addConnection_complete)
  then show "addConnection rt pg i a ah b bh s = (Returned, snd (addConnection rt pg i a ah b bh s))"
    by (simp add: prod_eq_iff)
  from 2 show "isDirty (snd (addConnection rt pg i a ah b bh s))" by (rule addConnection_dirty)
  have 3: "fst (deleteNode rt pg n s) = Returned" using c by (rule deleteNode_complete)
  then show "deleteNode rt pg n s = (Returned, snd (deleteNode rt pg n s))"
    by (simp add: prod_eq_iff)
  from 3 show "isDirty (snd (deleteNode rt pg n s))" by (rule deleteNode_dirty)
  assume e: "map_of (nodes s) n \<noteq> None"
  have 4: "fst (updateNodeProperty rt pg n p v s) = Returned"
    using c by (rule updateNodeProperty_complete)
  then show "updateNodeProperty rt pg n p v s = (Returned, snd (updateNodeProperty rt pg n p v s))"
    by (simp add: prod_eq_iff)
  from e 4 show "isDirty (snd (updateNodeProperty rt pg n p v s))"
    by (rule updateNodeProperty_dirty)
next
  show "isDirty (deleteConnection rt k s)" by (simp add: deleteConnection_def markDirty_def)
  show "isDirty (onNodeDragEnd s)" by (simp add: onNodeDragEnd_def markDirty_def)
next
  assume w: "\<not> truthy (workflow s) \<or> workflow s = JObj kd ps"
  then have 5: "fst (updateWorkflowProperty p v s) = Returned"
    by (rule updateWorkflowProperty_complete)
  then show "updateWorkflowProperty p v s = (Returned, snd (updateWorkflowProperty p v s))"
    by (simp add: prod_eq_iff)
  from 5 show "isDirty (snd (updateWorkflowProperty p v s))"
    by (rule updateWorkflowProperty_dirty)
next
  assume "isDirty s \<and> \<not> isDirty (step rt pg ev s)"
  then show "\<exists>result. ev = SaveResponse (Json True result)"
    using step_clears [of s rt pg ev] by blast
next
  show "isDirty (saveWorkflow_resumed rt NetworkError s) = isDirty s"
    and "isDirty (saveWorkflow_resumed rt (NotJson ok) s) = isDirty s"
    and "isDirty (saveWorkflow_resumed rt (Json False result) s) = isDirty s"
    by (simp_all add: saveWorkflow_resumed_def save_catch_def showNotification_def)
qed

text \<open>
  C9, where the code fails it. \<open>markDirty\<close> is the last statement of \<open>addNode\<close> and of
  \<open>deleteNode\<close>, after the rendering; when the rendering throws, the map has changed and
  \<open>isDirty\<close> has not. On a page whose canvas has no nodes layer (\<open>this.nodesLayer\<close> is
  \<open>null\<close>, a case that \<open>updateCanvasTransform\<close> provides for) \<open>addNode\<close> stores the node
  and stops in \<open>renderNode\<close>; on a page without the properties panel \<open>deleteNode\<close>
  deletes the node and stops in \<open>hideProperties\<close>. Either leaves a clean editor clean.
\<close>

theorem mutation_without_markDirty:
  "addNode plain_rt canvas_without_layers ''node_d''
        \<lparr>nt_name = ''log'', display_name = ''Log Message''\<rparr> \<lparr>pos_x = Fin 10, pos_y = Fin 20\<rparr>
        (new_editor JNull)
     = (TypeError,
        (new_editor JNull)
          \<lparr>nodes := [(IdStr ''node_d'',
                      \<lparr>node_id = IdStr ''node_d'', node_type = ''log'',
                       node_name = JStr ''Log Message'',
                       position = \<lparr>pos_x = Fin 10, pos_y = Fin 20\<rparr>,
                       config = Some [], status = Some ''pending''\<rparr>)]\<rparr>)
   \<and> \<not> isDirty (snd (addNode plain_rt canvas_without_layers ''node_d''
        \<lparr>nt_name = ''log'', display_name = ''Log Message''\<rparr> \<lparr>pos_x = Fin 10, pos_y = Fin 20\<rparr>
        (new_editor JNull)))
   \<and> deleteNode plain_rt page_without_panel (IdStr ''node_a'')
        ((new_editor JNull)\<lparr>nodes := [(IdStr ''node_a'', sample_node (IdStr ''node_a''))],
                             node_els := {''node_a''}\<rparr>)
     = (TypeError, new_editor JNull)
   \<and> \<not> isDirty (new_editor JNull)"
  by (simp add: addNode_def renderNode_def deleteNode_def hideProperties_def id_string_def
      canvas_without_layers_def page_without_panel_def editor_page_def new_editor_def Let_def)

end
